theory Spec2Isabelle
  imports Main "HOL-Library.AList" "HOL-Library.Product_Lexorder"
begin

section \<open>Errors and results\<close>

text \<open>
  Every exception the modelled part of \<^verbatim>\<open>build.py\<close> can raise is a value of
  \<open>error\<close>; a function that can raise returns \<open>error + 'a\<close> with \<open>Inl\<close> for the
  exception. \<open>ShutilError\<close> is \<^verbatim>\<open>shutil.Error\<close>, \<open>TemplateError\<close> stands for what the
  template engine raises and \<open>PandocError\<close> for what the converter raises.

  \<open>OutOfModel\<close> is not a Python exception. It marks the two places where the model stops
  describing the code: a descriptor field that the code stores unconverted and whose JSON
  value has another type than the one the NamedTuple annotates, and a directory tree copied
  onto itself or into its own subtree. No theorem below reads \<open>OutOfModel\<close> as a failure
  of the code.
\<close>

datatype error =
    ValueError
  | TypeError
  | KeyError
  | IndexError
  | OverflowError
  | FileNotFoundError
  | FileExistsError
  | NotADirectoryError
  | IsADirectoryError
  | ShutilError
  | JSONDecodeError
  | TemplateError
  | PandocError
  | OutOfModel

definition and_then :: "error + 'a \<Rightarrow> ('a \<Rightarrow> error + 'b) \<Rightarrow> error + 'b" where
  "and_then m f = (case m of Inl e \<Rightarrow> Inl e | Inr x \<Rightarrow> f x)"

text \<open>A list comprehension whose body can raise: the first exception ends it.\<close>

fun map_result :: "('a \<Rightarrow> error + 'b) \<Rightarrow> 'a list \<Rightarrow> error + 'b list" where
  "map_result f [] = Inr []"
| "map_result f (x # xs) =
     and_then (f x) (\<lambda>y. and_then (map_result f xs) (\<lambda>ys. Inr (y # ys)))"

text \<open>The same when the body also changes the state (here: the file system).\<close>

fun map_state :: "('a \<Rightarrow> 's \<Rightarrow> error + ('b \<times> 's)) \<Rightarrow> 'a list \<Rightarrow> 's \<Rightarrow> error + ('b list \<times> 's)" where
  "map_state f [] s = Inr ([], s)"
| "map_state f (x # xs) s =
     and_then (f x s) (\<lambda>(y, s1).
     and_then (map_state f xs s1) (\<lambda>(ys, s2). Inr (y # ys, s2)))"

text \<open>A \<^verbatim>\<open>for\<close> loop run for its effect on the state.\<close>

fun for_each :: "('a \<Rightarrow> 's \<Rightarrow> error + 's) \<Rightarrow> 'a list \<Rightarrow> 's \<Rightarrow> error + 's" where
  "for_each f [] s = Inr s"
| "for_each f (x # xs) s = and_then (f x s) (for_each f xs)"

section \<open>Strings\<close>

text \<open>\<^verbatim>\<open>sep.join(xs)\<close> and \<^verbatim>\<open>s.split(sep)\<close> (one-character separator) of \<^verbatim>\<open>str\<close>.\<close>

fun str_join :: "string \<Rightarrow> string list \<Rightarrow> string" where
  "str_join sep [] = []"
| "str_join sep [x] = x"
| "str_join sep (x # y # ys) = x @ sep @ str_join sep (y # ys)"

fun str_split :: "char \<Rightarrow> string \<Rightarrow> string list" where
  "str_split c [] = [[]]"
| "str_split c (x # xs) =
     (if x = c then [] # str_split c xs
      else (case str_split c xs of [] \<Rightarrow> [[x]] | w # ws \<Rightarrow> (x # w) # ws))"

text \<open>\<^verbatim>\<open>s.rfind(c)\<close>: the last index of \<open>c\<close>, \<open>None\<close> for Python's \<open>-1\<close>.\<close>

fun rfind :: "char \<Rightarrow> string \<Rightarrow> nat option" where
  "rfind c [] = None"
| "rfind c (x # xs) =
     (case rfind c xs of Some i \<Rightarrow> Some (Suc i) | None \<Rightarrow> if x = c then Some 0 else None)"

text \<open>Decimal digits of a natural number, as \<^verbatim>\<open>str(n)\<close> prints them.\<close>

definition digit_char :: "nat \<Rightarrow> char" where
  "digit_char d = ''0123456789'' ! d"

function str_nat :: "nat \<Rightarrow> string" where
  "str_nat n = (if n < 10 then [digit_char n] else str_nat (n div 10) @ [digit_char (n mod 10)])"
  by pat_completeness auto
termination
  by (relation "measure id") auto

declare str_nat.simps [simp del]

section \<open>Paths\<close>

text \<open>
  A \<^verbatim>\<open>pathlib.Path\<close> on a POSIX system: the root (empty, one slash or two slashes) and
  the components. \<open>Path s\<close> is the constructor applied to a string: empty components and
  \<^verbatim>\<open>.\<close> components are dropped, \<^verbatim>\<open>..\<close> is kept.
\<close>

datatype path = PurePath (root: string) (parts: "string list")

definition Path :: "string \<Rightarrow> path" where
  "Path s =
     PurePath
       (if take 2 s = ''//'' \<and> take 3 s \<noteq> ''///'' then ''//''
        else if take 1 s = ''/'' then ''/'' else [])
       (filter (\<lambda>c. c \<noteq> [] \<and> c \<noteq> ''.'') (str_split CHR ''/'' s))"

text \<open>\<^verbatim>\<open>a.joinpath(b)\<close>: an absolute \<open>b\<close> replaces \<open>a\<close>. \<^verbatim>\<open>a.joinpath(b, c)\<close> is
  \<open>joinpath (joinpath a b) c\<close>.\<close>

definition joinpath :: "path \<Rightarrow> path \<Rightarrow> path" where
  "joinpath a b = (if root b \<noteq> [] then b else PurePath (root a) (parts a @ parts b))"

definition path_str :: "path \<Rightarrow> string" where
  "path_str p = (if root p = [] \<and> parts p = [] then ''.'' else root p @ str_join ''/'' (parts p))"

definition path_name :: "path \<Rightarrow> string" where
  "path_name p = (if parts p = [] then [] else last (parts p))"

text \<open>\<^verbatim>\<open>p.stem\<close>: the final component without its last suffix.\<close>

definition stem :: "path \<Rightarrow> string" where
  "stem p =
     (let name = path_name p in
      case rfind CHR ''.'' name of
        None \<Rightarrow> name
      | Some i \<Rightarrow> if 0 < i \<and> i < length name - 1 then take i name else name)"

definition parent :: "path \<Rightarrow> path" where
  "parent p = PurePath (root p) (butlast (parts p))"

text \<open>The components of \<open>q\<close> below \<open>p\<close>, when \<open>q\<close> is \<open>p\<close> or lies below it.\<close>

definition below :: "path \<Rightarrow> path \<Rightarrow> string list option" where
  "below p q =
     (if root q = root p \<and> take (length (parts p)) (parts q) = parts p
      then Some (drop (length (parts p)) (parts q)) else None)"

definition descend :: "path \<Rightarrow> string list \<Rightarrow> path" where
  "descend p rel = PurePath (root p) (parts p @ rel)"

section \<open>The file system\<close>

text \<open>
  The state the build works on: an association list from paths to nodes, in the order a
  directory scan lists them. Paths are compared as \<^verbatim>\<open>pathlib\<close> compares them (no symbolic
  links, no resolution of \<^verbatim>\<open>..\<close>, the working directory fixed); a path with no components
  is the working directory or the root and always exists. The primitives below are those
  of \<^verbatim>\<open>os\<close>, \<^verbatim>\<open>pathlib\<close>, \<^verbatim>\<open>glob\<close>
  and \<^verbatim>\<open>shutil\<close> that the build calls, on a file system in which the parent of every
  entry is a directory. A function that raises returns the exception only: the state an
  aborted build leaves behind is not described.
\<close>

datatype node = File string | Dir

type_synonym fs = "(path \<times> node) list"

definition lookup :: "fs \<Rightarrow> path \<Rightarrow> node option" where
  "lookup fs p = (if parts p = [] then Some Dir else map_of fs p)"

definition exists :: "fs \<Rightarrow> path \<Rightarrow> bool" where
  "exists fs p = (lookup fs p \<noteq> None)"



text \<open>\<^verbatim>\<open>os.mkdir(p)\<close> and \<^verbatim>\<open>p.mkdir()\<close>.\<close>

definition os_mkdir :: "path \<Rightarrow> fs \<Rightarrow> error + fs" where
  "os_mkdir p fs =
     (case lookup fs p of
        Some _ \<Rightarrow> Inl FileExistsError
      | None \<Rightarrow>
          (case lookup fs (parent p) of
             None \<Rightarrow> Inl FileNotFoundError
           | Some (File _) \<Rightarrow> Inl NotADirectoryError
           | Some Dir \<Rightarrow> Inr (AList.update p Dir fs)))"

text \<open>
  \<^verbatim>\<open>p.mkdir(parents=True, exist_ok=True)\<close> and \<^verbatim>\<open>os.makedirs(p, exist_ok=True)\<close>: every
  missing directory on the way down to \<open>p\<close> is created; a file on the way is an error.
\<close>

fun makedirs_walk :: "string \<Rightarrow> string list \<Rightarrow> string list \<Rightarrow> fs \<Rightarrow> error + fs" where
  "makedirs_walk r pre [] fs = Inr fs"
| "makedirs_walk r pre (c # cs) fs =
     (case lookup fs (PurePath r (pre @ [c])) of
        None \<Rightarrow> makedirs_walk r (pre @ [c]) cs (AList.update (PurePath r (pre @ [c])) Dir fs)
      | Some Dir \<Rightarrow> makedirs_walk r (pre @ [c]) cs fs
      | Some (File _) \<Rightarrow> Inl (if cs = [] then FileExistsError else NotADirectoryError))"

definition makedirs :: "path \<Rightarrow> fs \<Rightarrow> error + fs" where
  "makedirs p fs = makedirs_walk (root p) [] (parts p) fs"

text \<open>\<^verbatim>\<open>open(p, 'r').read()\<close> and \<^verbatim>\<open>open(p, 'w').write(s)\<close>.\<close>

definition read_text :: "path \<Rightarrow> fs \<Rightarrow> error + string" where
  "read_text p fs =
     (case lookup fs p of
        None \<Rightarrow> Inl FileNotFoundError
      | Some Dir \<Rightarrow> Inl IsADirectoryError
      | Some (File s) \<Rightarrow> Inr s)"

definition write_text :: "path \<Rightarrow> string \<Rightarrow> fs \<Rightarrow> error + fs" where
  "write_text p s fs =
     (case lookup fs p of
        Some Dir \<Rightarrow> Inl IsADirectoryError
      | _ \<Rightarrow>
          (case lookup fs (parent p) of
             None \<Rightarrow> Inl FileNotFoundError
           | Some (File _) \<Rightarrow> Inl NotADirectoryError
           | Some Dir \<Rightarrow> Inr (AList.update p (File s) fs)))"

text \<open>
  \<^verbatim>\<open>glob.glob("*/" + fname, root_dir=d)\<close>: one string \<^verbatim>\<open>sub/fname\<close> for every entry
  \<^verbatim>\<open>d/sub/fname\<close>, where \<^verbatim>\<open>*\<close> does not match a name that starts with a dot.
\<close>

definition glob_sub :: "string \<Rightarrow> path \<Rightarrow> fs \<Rightarrow> string list" where
  "glob_sub fname d fs =
     List.map_filter
       (\<lambda>(q, n). case below d q of
          Some [sub, f] \<Rightarrow>
            if f = fname \<and> take 1 sub \<noteq> ''.'' then Some (sub @ ''/'' @ fname) else None
        | _ \<Rightarrow> None)
       fs"

text \<open>
  \<^verbatim>\<open>shutil.copytree(src, dst, dirs_exist_ok=flag)\<close>. The entries below \<open>src\<close> are copied
  to the same relative places below \<open>dst\<close>, which is created with its parents. A file
  replaces a file of its name and a directory merges into a directory of its name. A file
  that meets a directory of its name is written inside that directory, under its own name
  (\<^verbatim>\<open>shutil.copy2\<close> onto a directory). The copy raises \<^verbatim>\<open>shutil.Error\<close> when a directory
  is in the way there as well, or when a directory of the source meets a file. The places
  are looked up in the state before the first entry is copied, which is the state at the
  time of each copy when the parent of every entry is a directory. Copying a tree onto
  itself or into its own subtree is not described (\<open>OutOfModel\<close>).
\<close>

definition tree_entries :: "path \<Rightarrow> path \<Rightarrow> fs \<Rightarrow> (path \<times> node) list" where
  "tree_entries src dst fs =
     List.map_filter
       (\<lambda>(q, n). case below src q of
          None \<Rightarrow> None
        | Some rel \<Rightarrow> if rel = [] then None else Some (descend dst rel, n))
       fs"

definition copy_target :: "fs \<Rightarrow> path \<times> node \<Rightarrow> path \<times> node" where
  "copy_target fs e =
     (case e of (q, n) \<Rightarrow>
        (case n of
           File _ \<Rightarrow> if lookup fs q = Some Dir then (descend q [path_name q], n) else (q, n)
         | Dir \<Rightarrow> (q, n)))"

definition copy_fails :: "fs \<Rightarrow> path \<times> node \<Rightarrow> bool" where
  "copy_fails fs e =
     (case e of (q, n) \<Rightarrow>
        (case n of
           Dir \<Rightarrow> (case lookup fs q of Some (File _) \<Rightarrow> True | _ \<Rightarrow> False)
         | File _ \<Rightarrow> lookup fs q = Some Dir \<and> lookup fs (descend q [path_name q]) = Some Dir))"

definition overlapping :: "path \<Rightarrow> path \<Rightarrow> bool" where
  "overlapping p q = (below p q \<noteq> None \<or> below q p \<noteq> None)"

definition copytree :: "path \<Rightarrow> path \<Rightarrow> bool \<Rightarrow> fs \<Rightarrow> error + fs" where
  "copytree src dst dirs_exist_ok fs =
     (case lookup fs src of
        None \<Rightarrow> Inl FileNotFoundError
      | Some (File _) \<Rightarrow> Inl NotADirectoryError
      | Some Dir \<Rightarrow>
          if overlapping src dst then Inl OutOfModel
          else if \<not> dirs_exist_ok \<and> exists fs dst then Inl FileExistsError
          else
            and_then (makedirs dst fs) (\<lambda>fs1.
              if list_ex (copy_fails fs1) (tree_entries src dst fs)
              then Inl ShutilError
              else Inr (foldr (\<lambda>(q, n). AList.update q n)
                          (map (copy_target fs1) (tree_entries src dst fs)) fs1)))"


section \<open>Descriptors\<close>

text \<open>What \<^verbatim>\<open>json.load\<close> returns. An object is a dictionary, read with \<open>map_of\<close>.\<close>

datatype json =
    JNull
  | JBool bool
  | JInt int
  | JFloat string
  | JStr string
  | JList "json list"
  | JObj "(string \<times> json) list"

text \<open>\<^verbatim>\<open>j[k]\<close> for a string \<open>k\<close>: KeyError on a dictionary without the key, TypeError on
  a value that is no dictionary.\<close>

definition subscript :: "json \<Rightarrow> string \<Rightarrow> error + json" where
  "subscript j k =
     (case j of
        JObj kvs \<Rightarrow> (case map_of kvs k of None \<Rightarrow> Inl KeyError | Some v \<Rightarrow> Inr v)
      | _ \<Rightarrow> Inl TypeError)"

text \<open>\<^verbatim>\<open>Path(v)\<close> on a decoded value: only a string is accepted.\<close>

definition Path_of_json :: "json \<Rightarrow> error + path" where
  "Path_of_json v = (case v of JStr s \<Rightarrow> Inr (Path s) | _ \<Rightarrow> Inl TypeError)"

text \<open>
  \<^verbatim>\<open>datetime.date(day=d, month=m, year=y)\<close>. The constructor reads year, month and day as
  C integers (a \<^verbatim>\<open>bool\<close> is an integer), then checks the ranges.
\<close>

record date =
  year :: int
  month :: int
  day :: int

definition c_int :: "json \<Rightarrow> error + int" where
  "c_int v =
     (case v of
        JInt i \<Rightarrow> if - 2147483648 \<le> i \<and> i \<le> 2147483647 then Inr i else Inl OverflowError
      | JBool b \<Rightarrow> Inr (if b then 1 else 0)
      | _ \<Rightarrow> Inl TypeError)"

definition is_leap :: "int \<Rightarrow> bool" where
  "is_leap y = (y mod 4 = 0 \<and> (y mod 100 \<noteq> 0 \<or> y mod 400 = 0))"

definition days_in_month :: "int \<Rightarrow> int \<Rightarrow> int" where
  "days_in_month y m =
     (if m = 2 then (if is_leap y then 29 else 28)
      else if m = 4 \<or> m = 6 \<or> m = 9 \<or> m = 11 then 30 else 31)"

definition datetime_date :: "json \<Rightarrow> json \<Rightarrow> json \<Rightarrow> error + date" where
  "datetime_date d m y =
     and_then (c_int y) (\<lambda>yi.
     and_then (c_int m) (\<lambda>mi.
     and_then (c_int d) (\<lambda>di.
       if yi < 1 \<or> 9999 < yi then Inl ValueError
       else if mi < 1 \<or> 12 < mi then Inl ValueError
       else if di < 1 \<or> days_in_month yi mi < di then Inl ValueError
       else Inr \<lparr>year = yi, month = mi, day = di\<rparr>)))"

text \<open>Dates compare by year, then month, then day.\<close>

definition date_key :: "date \<Rightarrow> int \<times> int \<times> int" where
  "date_key d = (year d, month d, day d)"

text \<open>\<^verbatim>\<open>d <= e\<close> for two dates of the calendar: the earlier year, or in the same year the
  earlier month, or in the same month a day that is not later.\<close>

definition date_le :: "date \<Rightarrow> date \<Rightarrow> bool" where
  "date_le d e =
     (year d < year e
      \<or> (year d = year e \<and> (month d < month e \<or> (month d = month e \<and> day d \<le> day e))))"

text \<open>
  The fields the code stores as decoded, read at the type the NamedTuple annotates. A value
  of another type is where the model stops (\<open>OutOfModel\<close>); the parsers below come here only
  after every step that can raise in Python has passed.
\<close>

definition as_str :: "json \<Rightarrow> error + string" where
  "as_str v = (case v of JStr s \<Rightarrow> Inr s | _ \<Rightarrow> Inl OutOfModel)"

definition as_str_list :: "json \<Rightarrow> error + string list" where
  "as_str_list v = (case v of JList vs \<Rightarrow> map_result as_str vs | _ \<Rightarrow> Inl OutOfModel)"

definition as_opt_str_list :: "json \<Rightarrow> error + string list option" where
  "as_opt_str_list v =
     (case v of JNull \<Rightarrow> Inr None | _ \<Rightarrow> and_then (as_str_list v) (\<lambda>xs. Inr (Some xs)))"

text \<open>
  The NamedTuples of the source. \<^verbatim>\<open>ProjectData.static\<close> is annotated \<^verbatim>\<open>Path\<close>, but
  \<^verbatim>\<open>copy_project_files\<close> tests it for \<^verbatim>\<open>None\<close>, so it is optional here as it is in
  \<^verbatim>\<open>PostData\<close>. Field names shared by several records are written with the record's
  name in front.
\<close>

record PostData =
  path :: path
  directory :: path
  format :: string
  static :: "path option"
  title :: string
  authors :: "string list"
  date :: date
  description :: string
  thumbnail :: path
  project :: "string list option"
  tags :: "string list"

record PostHTML =
  post_data :: PostData
  post_src :: string

record PostBuildData =
  path :: path
  directory :: path
  data :: PostData

record ProjectData =
  path :: path
  directory :: path
  format :: string
  static :: "path option"
  thumbnail :: path
  name :: string
  date :: date
  description :: string

record ProjectHTML =
  data :: ProjectData
  proj_src :: string

record ProjectBuildData =
  path :: path
  directory :: path
  data :: ProjectData

section \<open>Collaborators\<close>

text \<open>
  What the build takes from outside: the JSON decoder, the document converter (text and
  source format to HTML), the template engine (a template is found by the templates
  directory and its name, and renders a list of named values), the hash of strings, and
  the order in which a Python set is iterated (of the tags, and of the posts of a
  project).
\<close>

datatype tval = TStr string | TPath path | TNone

type_synonym template = "(string \<times> tval) list \<Rightarrow> error + string"

record env =
  json_load :: "string \<Rightarrow> error + json"
  pandoc_convert :: "string \<Rightarrow> string \<Rightarrow> error + string"
  get_template :: "path \<Rightarrow> string \<Rightarrow> error + template"
  hash_str :: "string \<Rightarrow> int"
  iter_tag_set :: "string list \<Rightarrow> string list"
  iter_post_set :: "PostBuildData list \<Rightarrow> PostBuildData list"

text \<open>A template that the engine finds and that renders whatever it is given.\<close>

definition template_ok :: "env \<Rightarrow> path \<Rightarrow> string \<Rightarrow> bool" where
  "template_ok env td tname = (\<exists>t. get_template env td tname = Inr t \<and> (\<forall>b. \<exists>s. t b = Inr s))"

section \<open>Posts\<close>

text \<open>
  The functions of \<^verbatim>\<open>build.py\<close>, with the parameters in the order of the source. The
  \<^verbatim>\<open>verbose\<close> flag only prints to the console; the console is not part of the state
  here, so the flag is left out.
\<close>

text \<open>\<^verbatim>\<open>parse_post\<close> (lines 128-151). The arguments of \<^verbatim>\<open>PostData(...)\<close> are evaluated in
  the order written.\<close>

definition parse_post :: "env \<Rightarrow> path \<Rightarrow> path \<Rightarrow> fs \<Rightarrow> error + PostData" where
  "parse_post env post_json_path posts_dir fs =
     and_then (read_text post_json_path fs) (\<lambda>text.
     and_then (json_load env text) (\<lambda>post_json.
     and_then (and_then (subscript post_json ''file_path'') Path_of_json) (\<lambda>v_path.
     and_then (and_then (subscript post_json ''post_dir'') Path_of_json) (\<lambda>v_directory.
     and_then (subscript post_json ''format'') (\<lambda>v_format.
     and_then (and_then (subscript post_json ''static_dir'') (\<lambda>v.
                 if v \<noteq> JNull then and_then (Path_of_json v) (\<lambda>p. Inr (Some p))
                 else Inr None)) (\<lambda>v_static.
     and_then (subscript post_json ''title'') (\<lambda>v_title.
     and_then (subscript post_json ''authors'') (\<lambda>v_authors.
     and_then (subscript post_json ''day'') (\<lambda>v_day.
     and_then (subscript post_json ''month'') (\<lambda>v_month.
     and_then (subscript post_json ''year'') (\<lambda>v_year.
     and_then (datetime_date v_day v_month v_year) (\<lambda>v_date.
     and_then (subscript post_json ''description'') (\<lambda>v_description.
     and_then (and_then (subscript post_json ''thumbnail'') Path_of_json) (\<lambda>v_thumbnail.
     and_then (subscript post_json ''projects'') (\<lambda>v_projects.
     and_then (subscript post_json ''tags'') (\<lambda>v_tags.
     and_then (as_str v_format) (\<lambda>t_format.
     and_then (as_str v_title) (\<lambda>t_title.
     and_then (as_str_list v_authors) (\<lambda>t_authors.
     and_then (as_str v_description) (\<lambda>t_description.
     and_then (as_opt_str_list v_projects) (\<lambda>t_projects.
     and_then (as_str_list v_tags) (\<lambda>t_tags.
       Inr \<lparr>PostData.path = v_path, PostData.directory = v_directory,
            PostData.format = t_format, PostData.static = v_static,
            PostData.title = t_title, PostData.authors = t_authors,
            PostData.date = v_date, PostData.description = t_description,
            PostData.thumbnail = v_thumbnail, PostData.project = t_projects,
            PostData.tags = t_tags\<rparr>))))))))))))))))))))))"

text \<open>\<^verbatim>\<open>collect_posts\<close> (lines 154-167).\<close>

definition collect_posts :: "env \<Rightarrow> path \<Rightarrow> fs \<Rightarrow> error + PostData list" where
  "collect_posts env posts_src_dir fs =
     (let post_list = glob_sub ''post.json'' posts_src_dir fs in
      if length post_list = 0 then Inr []
      else map_result
             (\<lambda>json_path. parse_post env (joinpath posts_src_dir (Path json_path)) posts_src_dir fs)
             post_list)"

text \<open>\<^verbatim>\<open>build_post_html\<close> (lines 175-188).\<close>

definition build_post_html :: "env \<Rightarrow> PostData \<Rightarrow> path \<Rightarrow> fs \<Rightarrow> error + PostHTML" where
  "build_post_html env pdata post_src_dir fs =
     (let post_src_path =
            joinpath (joinpath post_src_dir (PostData.directory pdata)) (PostData.path pdata)
      in and_then (read_text post_src_path fs) (\<lambda>post_text.
         and_then (pandoc_convert env post_text (PostData.format pdata)) (\<lambda>post_html.
           Inr \<lparr>post_data = pdata, post_src = post_html\<rparr>)))"

text \<open>
  \<^verbatim>\<open>render_authors_string\<close> (lines 191-201). The chain has three tests and no
  \<^verbatim>\<open>else\<close>: a list that passes none of them falls off the end of the function, which in
  Python returns \<^verbatim>\<open>None\<close>, so the result is an optional string. In the third branch
  \<^verbatim>\<open>author_list[-1]\<close> raises IndexError on an empty list.
\<close>

definition render_authors_string :: "string list \<Rightarrow> error + string option" where
  "render_authors_string author_list =
     (if length author_list = 0 then Inl ValueError
      else if length author_list = 1 then Inr (Some (author_list ! 0))
      else if length author_list < 1 then
        (if author_list = [] then Inl IndexError
         else Inr (Some (str_join '' '' (map (\<lambda>name. name @ '', '') (butlast author_list))
                          @ ''and '' @ last author_list)))
      else Inr None)"

text \<open>\<^verbatim>\<open>render_date_string\<close> (lines 204-205): \<^verbatim>\<open>strftime("%B %-d, %Y")\<close> in the C
  locale: the English month name, the day without padding, the year.\<close>

definition month_names :: "string list" where
  "month_names =
     [''January'', ''February'', ''March'', ''April'', ''May'', ''June'', ''July'',
      ''August'', ''September'', ''October'', ''November'', ''December'']"

definition render_date_string :: "date \<Rightarrow> string" where
  "render_date_string d =
     (if 1 \<le> month d \<and> month d \<le> 12 then month_names ! nat (month d - 1) else [])
     @ '' '' @ str_nat (nat (day d)) @ '', '' @ str_nat (nat (year d))"

text \<open>A value handed to a template where the code passes a string or \<^verbatim>\<open>None\<close>.\<close>

definition opt_tval :: "string option \<Rightarrow> tval" where
  "opt_tval v = (case v of None \<Rightarrow> TNone | Some s \<Rightarrow> TStr s)"

text \<open>The page title of a post's header (line 240).\<close>

definition post_page_title :: "PostData \<Rightarrow> string" where
  "post_page_title pdata = PostData.title pdata @ '' - Alia Lescoulie''"

text \<open>\<^verbatim>\<open>build_post_page\<close> (lines 217-268).\<close>

definition build_post_page ::
  "env \<Rightarrow> PostHTML \<Rightarrow> path \<Rightarrow> path \<Rightarrow> path \<Rightarrow> string \<Rightarrow> fs \<Rightarrow> error + (PostBuildData \<times> fs)" where
  "build_post_page env Post site_build_dir post_build_dir templates_dir post_template_name fs =
     and_then (get_template env templates_dir ''header.html.jinja'') (\<lambda>header.
     and_then (get_template env templates_dir ''navbar.html.jinja'') (\<lambda>navbar.
     and_then (get_template env templates_dir post_template_name) (\<lambda>PostTemp.
     and_then (header [(''title'', TStr (post_page_title (post_data Post))),
                       (''depth'', TStr ''../../'')]) (\<lambda>header_text.
     and_then (navbar [(''depth'', TStr ''../../'')]) (\<lambda>navbar_text.
     and_then (render_authors_string (PostData.authors (post_data Post))) (\<lambda>post_author.
     and_then (PostTemp [(''header'', TStr header_text),
                         (''navbar'', TStr navbar_text),
                         (''post_title'', TStr (PostData.title (post_data Post))),
                         (''post_author'', opt_tval post_author),
                         (''post_date'', TStr (render_date_string (PostData.date (post_data Post)))),
                         (''post_html'', TStr (post_src Post))]) (\<lambda>post_text.
       let post_dir = joinpath (joinpath site_build_dir post_build_dir)
                        (PostData.directory (post_data Post));
           post_path = joinpath post_dir (Path (stem (PostData.path (post_data Post)) @ ''.html''))
       in and_then (makedirs post_dir fs) (\<lambda>fs1.
          and_then (write_text post_path post_text fs1) (\<lambda>fs2.
            Inr (\<lparr>PostBuildData.path = post_path, PostBuildData.directory = post_dir,
                  PostBuildData.data = post_data Post\<rparr>, fs2))))))))))"

text \<open>\<^verbatim>\<open>copy_post_files\<close> (lines 271-295).\<close>

definition copy_post_files :: "PostBuildData \<Rightarrow> path \<Rightarrow> path \<Rightarrow> path \<Rightarrow> fs \<Rightarrow> error + fs" where
  "copy_post_files post site_build_dir post_src_dir post_build_dir fs =
     (case PostData.static (PostBuildData.data post) of
        None \<Rightarrow> Inr fs
      | Some static_dir \<Rightarrow>
          (let new_static_dir =
                 joinpath (joinpath (joinpath site_build_dir post_build_dir)
                             (PostData.directory (PostBuildData.data post)))
                   (Path ''static'')
           in and_then (if \<not> exists fs new_static_dir then os_mkdir new_static_dir fs else Inr fs)
                (\<lambda>fs1.
                  copytree
                    (joinpath (joinpath post_src_dir (PostData.directory (PostBuildData.data post)))
                       static_dir)
                    new_static_dir True fs1)))"

text \<open>The directory links start from (lines 308 and 342).\<close>

definition link_root :: "int \<Rightarrow> path" where
  "link_root link_depth =
     (if link_depth \<le> 0 then Path ''.'' else Path (concat (replicate (nat link_depth) ''../'')))"

text \<open>\<^verbatim>\<open>render_tags\<close> (lines 298-318).\<close>

definition render_tags :: "env \<Rightarrow> string list \<Rightarrow> path \<Rightarrow> int \<Rightarrow> error + string" where
  "render_tags env tgs templates_dir link_depth =
     (let root_dir = link_root link_depth
      in and_then (get_template env templates_dir ''tag.html.jinja'') (\<lambda>tag_temp.
         and_then (map_result
                     (\<lambda>tag. tag_temp [(''link'', TPath (joinpath root_dir (Path (tag @ ''.html'')))),
                                      (''tag'', TStr tag)])
                     tgs) (\<lambda>tag_list.
           Inr (str_join '', '' tag_list))))"

text \<open>\<^verbatim>\<open>date_sort\<close> (line 321), and \<^verbatim>\<open>sorted(xs, key=key, reverse=reverse)\<close>: the sort is
  stable, and a reversed sort reverses the list, sorts it, and reverses the result.\<close>

definition date_sort :: "PostBuildData \<Rightarrow> int \<times> int \<times> int" where
  "date_sort x = date_key (PostData.date (PostBuildData.data x))"

definition sorted_py :: "('a \<Rightarrow> 'k::linorder) \<Rightarrow> bool \<Rightarrow> 'a list \<Rightarrow> 'a list" where
  "sorted_py key reverse xs = (if reverse then rev (sort_key key (rev xs)) else sort_key key xs)"

text \<open>The block of one post (lines 352-373).\<close>

definition render_post_block ::
  "env \<Rightarrow> template \<Rightarrow> path \<Rightarrow> path \<Rightarrow> path \<Rightarrow> int \<Rightarrow> PostBuildData \<Rightarrow> error + string" where
  "render_post_block env block root_dir templates_dir post_build_dir link_depth post =
     and_then (render_authors_string (PostData.authors (PostBuildData.data post))) (\<lambda>author.
     and_then (render_tags env (PostData.tags (PostBuildData.data post)) templates_dir link_depth)
       (\<lambda>tags_text.
         block [(''title'', TStr (PostData.title (PostBuildData.data post))),
                (''img_link'',
                   TPath (joinpath (joinpath (joinpath root_dir post_build_dir)
                                      (PostData.directory (PostBuildData.data post)))
                            (PostData.thumbnail (PostBuildData.data post)))),
                (''link'',
                   TPath (joinpath (joinpath (joinpath root_dir post_build_dir)
                                      (PostData.directory (PostBuildData.data post)))
                            (Path (stem (PostData.path (PostBuildData.data post)) @ ''.html'')))),
                (''date'', TStr (render_date_string (PostData.date (PostBuildData.data post)))),
                (''author'', opt_tval author),
                (''summary'', TStr (PostData.description (PostBuildData.data post))),
                (''tags'', TStr tags_text)]))"

text \<open>\<^verbatim>\<open>build_post_blocks\<close> (lines 324-375).\<close>

definition build_post_blocks ::
  "env \<Rightarrow> PostBuildData list \<Rightarrow> path \<Rightarrow> path \<Rightarrow> int \<Rightarrow> (PostBuildData \<Rightarrow> 'k::linorder) \<Rightarrow> bool
     \<Rightarrow> error + string list" where
  "build_post_blocks env posts templates_dir post_build_dir link_depth post_sort_lambda reverse_cron =
     and_then (get_template env templates_dir ''header.html.jinja'') (\<lambda>header.
     and_then (get_template env templates_dir ''navbar.html.jinja'') (\<lambda>navbar.
     and_then (get_template env templates_dir ''post_block.html.jinja'') (\<lambda>block.
     and_then (get_template env templates_dir ''blog.html.jinja'') (\<lambda>blog_page.
       let sorted_posts = sorted_py post_sort_lambda reverse_cron posts;
           root_dir = link_root link_depth
       in map_result
            (render_post_block env block root_dir templates_dir post_build_dir link_depth)
            sorted_posts))))"

text \<open>\<^verbatim>\<open>build_blog_page\<close> (lines 378-410). The call of \<^verbatim>\<open>build_post_blocks\<close> leaves the
  link depth, the sort key and the direction at their defaults: 0, \<^verbatim>\<open>date_sort\<close>, reversed.\<close>

definition build_blog_page ::
  "env \<Rightarrow> PostBuildData list \<Rightarrow> path \<Rightarrow> path \<Rightarrow> path \<Rightarrow> path \<Rightarrow> string \<Rightarrow> fs \<Rightarrow> error + fs" where
  "build_blog_page env posts templates_dir site_build_dir post_build_dir blog_page_path ttl fs =
     and_then (get_template env templates_dir ''blog.html.jinja'') (\<lambda>blog_page.
     and_then (get_template env templates_dir ''header.html.jinja'') (\<lambda>header.
     and_then (get_template env templates_dir ''navbar.html.jinja'') (\<lambda>navbar.
     and_then (build_post_blocks env posts templates_dir post_build_dir 0 date_sort True)
       (\<lambda>post_blocks.
     and_then (header [(''title'', TStr ''Blog'')]) (\<lambda>header_text.
     and_then (navbar []) (\<lambda>navbar_text.
     and_then (blog_page [(''header'', TStr header_text),
                          (''navbar'', TStr navbar_text),
                          (''title'', TStr ttl),
                          (''posts'', TStr (str_join [CHR 0x0A] post_blocks))]) (\<lambda>blog_page_text.
       write_text (joinpath site_build_dir blog_page_path) blog_page_text fs)))))))"

text \<open>\<^verbatim>\<open>build_tags_pages\<close> (lines 413-442). \<open>tags_map_of\<close> is the dictionary built by lines
  418-432, its keys in the order the set of tags is iterated and each key held once
  (\<open>clearjunk\<close>); \<^verbatim>\<open>tags_map[tag].append(post)\<close> raises KeyError on a missing key.\<close>

definition dict_append :: "string \<Rightarrow> 'v \<Rightarrow> (string \<times> 'v list) list \<Rightarrow> error + (string \<times> 'v list) list" where
  "dict_append k v m =
     (case map_of m k of
        None \<Rightarrow> Inl KeyError
      | Some vs \<Rightarrow> Inr (AList.update k (vs @ [v]) m))"

definition tags_map_of :: "env \<Rightarrow> PostBuildData list \<Rightarrow> error + (string \<times> PostBuildData list) list" where
  "tags_map_of env posts =
     (let tags_list = concat (map (\<lambda>post. PostData.tags (PostBuildData.data post)) posts);
          tags_set = iter_tag_set env tags_list;
          tags_map = AList.clearjunk (map (\<lambda>tag. (tag, [])) tags_set)
      in for_each
           (\<lambda>post. for_each (\<lambda>tag. dict_append tag post) (PostData.tags (PostBuildData.data post)))
           posts tags_map)"

text \<open>What lines 430-432 append below a tag: the posts that list it, in the order of the
  posts, once for every time a post lists it.\<close>

definition posts_tagged :: "string \<Rightarrow> PostBuildData list \<Rightarrow> PostBuildData list" where
  "posts_tagged k posts =
     concat (map (\<lambda>post. replicate (count_list (PostData.tags (PostBuildData.data post)) k) post) posts)"

definition build_tags_pages ::
  "env \<Rightarrow> PostBuildData list \<Rightarrow> path \<Rightarrow> path \<Rightarrow> path \<Rightarrow> fs \<Rightarrow> error + fs" where
  "build_tags_pages env posts templates_dir site_build_dir post_build_dir fs =
     and_then (tags_map_of env posts) (\<lambda>tags_map.
       for_each
         (\<lambda>(tag, tag_posts).
            build_blog_page env tag_posts templates_dir site_build_dir post_build_dir
              (Path (tag @ ''.html'')) (tag @ '' Blog Posts''))
         tags_map fs)"

text \<open>\<^verbatim>\<open>build_blog\<close> (lines 444-501).\<close>

definition build_blog ::
  "env \<Rightarrow> path \<Rightarrow> path \<Rightarrow> path \<Rightarrow> path \<Rightarrow> string \<Rightarrow> fs \<Rightarrow> error + (PostBuildData list \<times> fs)" where
  "build_blog env post_src_dir post_build_dir site_build_dir templates_dir post_template_name fs =
     and_then (collect_posts env post_src_dir fs) (\<lambda>posts.
       if length posts = 0 then Inr ([], fs)
       else
         and_then (map_result (\<lambda>post. build_post_html env post post_src_dir fs) posts) (\<lambda>htmls.
         and_then (map_state
                     (\<lambda>post. build_post_page env post site_build_dir post_build_dir templates_dir
                                post_template_name)
                     htmls fs) (\<lambda>(built, fs1).
         and_then (for_each
                     (\<lambda>post. copy_post_files post site_build_dir post_src_dir post_build_dir)
                     built fs1) (\<lambda>fs2.
         and_then (build_blog_page env built templates_dir site_build_dir post_build_dir
                     (Path ''blog.html'') ''Blog'' fs2) (\<lambda>fs3.
         and_then (build_tags_pages env built templates_dir site_build_dir post_build_dir fs3)
           (\<lambda>fs4. Inr (built, fs4)))))))"

section \<open>Projects\<close>

text \<open>\<^verbatim>\<open>parse_proj\<close> (lines 515-536). \<^verbatim>\<open>Path(proj_json["static_dir"])\<close> has no test for
  \<^verbatim>\<open>None\<close> around it, unlike the same field in \<^verbatim>\<open>parse_post\<close>.\<close>

definition parse_proj :: "env \<Rightarrow> path \<Rightarrow> path \<Rightarrow> fs \<Rightarrow> error + ProjectData" where
  "parse_proj env proj_json_path proj_src_dir fs =
     and_then (read_text proj_json_path fs) (\<lambda>text.
     and_then (json_load env text) (\<lambda>proj_json.
     and_then (and_then (subscript proj_json ''file_path'') Path_of_json) (\<lambda>v_path.
     and_then (and_then (subscript proj_json ''proj_dir'') Path_of_json) (\<lambda>v_directory.
     and_then (subscript proj_json ''format'') (\<lambda>v_format.
     and_then (and_then (subscript proj_json ''static_dir'') Path_of_json) (\<lambda>v_static.
     and_then (and_then (subscript proj_json ''thumbnail'') Path_of_json) (\<lambda>v_thumbnail.
     and_then (subscript proj_json ''project'') (\<lambda>v_name.
     and_then (subscript proj_json ''day'') (\<lambda>v_day.
     and_then (subscript proj_json ''month'') (\<lambda>v_month.
     and_then (subscript proj_json ''year'') (\<lambda>v_year.
     and_then (datetime_date v_day v_month v_year) (\<lambda>v_date.
     and_then (subscript proj_json ''description'') (\<lambda>v_description.
     and_then (as_str v_format) (\<lambda>t_format.
     and_then (as_str v_name) (\<lambda>t_name.
     and_then (as_str v_description) (\<lambda>t_description.
       Inr \<lparr>ProjectData.path = v_path, ProjectData.directory = v_directory,
            ProjectData.format = t_format, ProjectData.static = Some v_static,
            ProjectData.thumbnail = v_thumbnail, ProjectData.name = t_name,
            ProjectData.date = v_date, ProjectData.description = t_description\<rparr>))))))))))))))))"

text \<open>
  A Python set of \<^verbatim>\<open>PostBuildData\<close>, kept as the list of its elements. The class
  overrides \<^verbatim>\<open>__hash__\<close> (lines 213-214) and inherits \<^verbatim>\<open>__eq__\<close> from the tuple, which
  compares field by field. \<^verbatim>\<open>s.add(x)\<close> leaves the set as it is when it holds an element
  with the hash of \<open>x\<close> that is equal to \<open>x\<close>, and adds \<open>x\<close> otherwise.
\<close>

definition PostBuildData_hash :: "env \<Rightarrow> PostBuildData \<Rightarrow> int" where
  "PostBuildData_hash env p = hash_str env (PostData.title (PostBuildData.data p))"

definition PostBuildData_eq :: "PostBuildData \<Rightarrow> PostBuildData \<Rightarrow> bool" where
  "PostBuildData_eq p q =
     (PostBuildData.path p = PostBuildData.path q
      \<and> PostBuildData.directory p = PostBuildData.directory q
      \<and> PostBuildData.data p = PostBuildData.data q)"

definition set_add :: "env \<Rightarrow> PostBuildData \<Rightarrow> PostBuildData list \<Rightarrow> PostBuildData list" where
  "set_add env x s =
     (if list_ex (\<lambda>e. PostBuildData_hash env e = PostBuildData_hash env x \<and> PostBuildData_eq e x) s
      then s else s @ [x])"

text \<open>The posts of a project (lines 568-571).\<close>

definition proj_posts_of :: "env \<Rightarrow> ProjectData \<Rightarrow> PostBuildData list \<Rightarrow> PostBuildData list" where
  "proj_posts_of env proj posts =
     fold
       (\<lambda>post proj_posts.
          case PostData.project (PostBuildData.data post) of
            None \<Rightarrow> proj_posts
          | Some ps \<Rightarrow>
              if ProjectData.name proj \<in> set ps then set_add env post proj_posts
              else proj_posts)
       posts []"

text \<open>The page title of a project's header (line 604): an f-string with no replacement
  field, so the text between the quotes as it stands.\<close>

definition project_page_title :: "ProjectData \<Rightarrow> string" where
  "project_page_title proj = ''project.name - Alia Lescoulie''"

text \<open>\<^verbatim>\<open>build_project_page_html\<close> (lines 559-613).\<close>

definition build_project_page_html ::
  "env \<Rightarrow> ProjectData \<Rightarrow> PostBuildData list \<Rightarrow> path \<Rightarrow> path \<Rightarrow> path \<Rightarrow> path \<Rightarrow> path \<Rightarrow> fs
     \<Rightarrow> error + ProjectHTML" where
  "build_project_page_html env proj posts templates_dir projects_src_dir site_build_dir
       post_build_dir projects_build_dir fs =
     (let proj_posts = proj_posts_of env proj posts
      in and_then (get_template env templates_dir ''header.html.jinja'') (\<lambda>header.
         and_then (get_template env templates_dir ''navbar.html.jinja'') (\<lambda>navbar.
         and_then (get_template env templates_dir ''project_page.html.jinja'') (\<lambda>proj_page.
           let proj_src_path =
                 joinpath (joinpath projects_src_dir (ProjectData.directory proj))
                   (ProjectData.path proj)
           in and_then (read_text proj_src_path fs) (\<lambda>proj_text.
              and_then (pandoc_convert env proj_text (ProjectData.format proj)) (\<lambda>proj_html.
              and_then (build_post_blocks env (iter_post_set env proj_posts) templates_dir
                          post_build_dir 2 date_sort False) (\<lambda>proj_post_blocks.
              and_then (header [(''title'', TStr (project_page_title proj)),
                                (''depth'', TStr ''../../'')]) (\<lambda>header_text.
              and_then (navbar [(''depth'', TStr ''../../'')]) (\<lambda>navbar_text.
              and_then (proj_page [(''header'', TStr header_text),
                                   (''navbar'', TStr navbar_text),
                                   (''project_name'', TStr (ProjectData.name proj)),
                                   (''proj_text'', TStr proj_html),
                                   (''posts'', TStr (str_join [CHR 0x0A] proj_post_blocks))])
                (\<lambda>proj_page_html.
                  Inr \<lparr>ProjectHTML.data = proj, proj_src = proj_page_html\<rparr>))))))))))"

text \<open>\<^verbatim>\<open>write_project\<close> (lines 622-644).\<close>

definition write_project :: "ProjectHTML \<Rightarrow> path \<Rightarrow> path \<Rightarrow> fs \<Rightarrow> error + (ProjectBuildData \<times> fs)" where
  "write_project phtml site_build_dir projects_build_dir fs =
     (let proj_dir = joinpath (joinpath site_build_dir projects_build_dir)
                       (ProjectData.directory (ProjectHTML.data phtml));
          proj_path = joinpath proj_dir
                        (Path (stem (ProjectData.path (ProjectHTML.data phtml)) @ ''.html''))
      in and_then (makedirs proj_dir fs) (\<lambda>fs1.
         and_then (write_text proj_path (proj_src phtml) fs1) (\<lambda>fs2.
           Inr (\<lparr>ProjectBuildData.path = proj_path, ProjectBuildData.directory = proj_dir,
                 ProjectBuildData.data = ProjectHTML.data phtml\<rparr>, fs2))))"


section \<open>A small site\<close>

text \<open>
  Concrete collaborators, records and a file system, on which the theorems below are
  run. A template of the small site prints the values of some of its variables, separated
  by a bar; the converter returns the text it is given; the set of tags is iterated as
  \<open>remdups\<close> lists it and the posts of a project in the order of insertion.
\<close>

definition show_tval :: "tval \<Rightarrow> string" where
  "show_tval v = (case v of TStr s \<Rightarrow> s | TPath p \<Rightarrow> path_str p | TNone \<Rightarrow> ''None'')"

definition echo_template :: "string list \<Rightarrow> template" where
  "echo_template keys bindings =
     Inr (str_join ''|'' (map (\<lambda>k. case map_of bindings k of None \<Rightarrow> [] | Some v \<Rightarrow> show_tval v) keys))"

definition demo_templates :: "path \<Rightarrow> string \<Rightarrow> error + template" where
  "demo_templates dir tname =
     (if tname = ''header.html.jinja'' then Inr (echo_template [''title''])
      else if tname = ''navbar.html.jinja'' then Inr (echo_template [])
      else if tname = ''post_block.html.jinja'' then Inr (echo_template [''title'', ''date''])
      else if tname = ''blog.html.jinja'' then Inr (echo_template [''title'', ''posts''])
      else if tname = ''tag.html.jinja'' then Inr (echo_template [''tag''])
      else if tname = ''project_page.html.jinja'' then Inr (echo_template [''header'', ''project_name'', ''posts''])
      else if tname = ''post_temp.html.jinja'' then Inr (echo_template [''post_title'', ''post_html''])
      else Inl TemplateError)"

definition demo_proj_json :: "json \<Rightarrow> json" where
  "demo_proj_json static_dir =
     JObj [(''file_path'', JStr ''about.md''), (''proj_dir'', JStr ''siteA''),
           (''format'', JStr ''markdown''), (''static_dir'', static_dir),
           (''thumbnail'', JStr ''thumb.png''), (''project'', JStr ''siteA''),
           (''day'', JInt 1), (''month'', JInt 2), (''year'', JInt 2024),
           (''description'', JStr ''A site'')]"

definition demo_json_load :: "string \<Rightarrow> error + json" where
  "demo_json_load text =
     (if text = ''with static'' then Inr (demo_proj_json (JStr ''static''))
      else if text = ''null static'' then Inr (demo_proj_json JNull)
      else Inl JSONDecodeError)"

definition demo_env :: env where
  "demo_env =
     \<lparr>json_load = demo_json_load,
      pandoc_convert = (\<lambda>text fmt. Inr text),
      get_template = demo_templates,
      hash_str = (\<lambda>s. int (length s)),
      iter_tag_set = remdups,
      iter_post_set = (\<lambda>xs. xs)\<rparr>"

definition demo_post ::
  "string \<Rightarrow> string \<Rightarrow> int \<Rightarrow> string list option \<Rightarrow> string list \<Rightarrow> PostBuildData" where
  "demo_post dir ttl m projs tgs =
     \<lparr>PostBuildData.path = PurePath [] [''site_out'', ''posts'', dir, ''post.html''],
      PostBuildData.directory = PurePath [] [''site_out'', ''posts'', dir],
      PostBuildData.data =
        \<lparr>PostData.path = PurePath [] [''post.md''], PostData.directory = PurePath [] [dir],
         PostData.format = ''markdown'', PostData.static = None, PostData.title = ttl,
         PostData.authors = [''Ann''],
         PostData.date = \<lparr>year = 2024, month = m, day = 1\<rparr>,
         PostData.description = ''text'', PostData.thumbnail = PurePath [] [''thumb.png''],
         PostData.project = projs, PostData.tags = tgs\<rparr>\<rparr>"

text \<open>A post of the last day of the year before.\<close>

definition old_post :: "string list option \<Rightarrow> PostBuildData" where
  "old_post projs =
     \<lparr>PostBuildData.path = PurePath [] [''site_out'', ''posts'', ''old'', ''post.html''],
      PostBuildData.directory = PurePath [] [''site_out'', ''posts'', ''old''],
      PostBuildData.data =
        \<lparr>PostData.path = PurePath [] [''post.md''], PostData.directory = PurePath [] [''old''],
         PostData.format = ''markdown'', PostData.static = None, PostData.title = ''Old post'',
         PostData.authors = [''Ann''],
         PostData.date = \<lparr>year = 2023, month = 12, day = 31\<rparr>,
         PostData.description = ''text'', PostData.thumbnail = PurePath [] [''thumb.png''],
         PostData.project = projs, PostData.tags = []\<rparr>\<rparr>"

definition demo_project :: "string \<Rightarrow> ProjectData" where
  "demo_project nm =
     \<lparr>ProjectData.path = PurePath [] [''about.md''], ProjectData.directory = PurePath [] [nm],
      ProjectData.format = ''markdown'', ProjectData.static = Some (PurePath [] [''static'']),
      ProjectData.thumbnail = PurePath [] [''thumb.png''], ProjectData.name = nm,
      ProjectData.date = \<lparr>year = 2024, month = 2, day = 1\<rparr>,
      ProjectData.description = ''A site''\<rparr>"

definition demo_fs :: fs where
  "demo_fs =
     [(PurePath [] [''projects''], Dir),
      (PurePath [] [''projects'', ''siteA''], Dir),
      (PurePath [] [''projects'', ''siteA'', ''about.md''], File ''About A''),
      (PurePath [] [''projects'', ''siteA'', ''proj.json''], File ''with static''),
      (PurePath [] [''projects'', ''siteA'', ''static''], Dir),
      (PurePath [] [''projects'', ''siteA'', ''static'', ''logo.png''], File ''logo''),
      (PurePath [] [''projects'', ''siteB''], Dir),
      (PurePath [] [''projects'', ''siteB'', ''about.md''], File ''About B''),
      (PurePath [] [''projects'', ''siteB'', ''proj.json''], File ''null static''),
      (PurePath [] [''blog_posts''], Dir),
      (PurePath [] [''site_out''], Dir)]"






section \<open>Basic facts\<close>

lemma and_then_Inl [simp]: "and_then (Inl e) f = Inl e"
  by (simp add: and_then_def)

lemma and_then_Inr [simp]: "and_then (Inr x) f = f x"
  by (simp add: and_then_def)

lemma and_then_eq_Inr:
  "and_then m f = Inr y \<longleftrightarrow> (\<exists>x. m = Inr x \<and> f x = Inr y)"
  by (cases m) simp_all

lemma demo_env_simps [simp]:
  "json_load demo_env = demo_json_load"
  "pandoc_convert demo_env = (\<lambda>text fmt. Inr text)"
  "get_template demo_env = demo_templates"
  "hash_str demo_env = (\<lambda>s. int (length s))"
  "iter_tag_set demo_env = remdups"
  "iter_post_set demo_env = (\<lambda>xs. xs)"
  by (simp_all add: demo_env_def)

section \<open>Author strings\<close>

text \<open>
  Claim C1. For a list of two or more names the specification asks for the comma-join of
  all names but the last, followed by "and " and the last name. The guard of that branch
  reads \<open>length author_list < 1\<close>, which no list of two or more names satisfies: the
  function falls off its end and returns \<^verbatim>\<open>None\<close>, on Ann, Bo, Cy as on every longer
  list, and not the string "Ann, Bo, and Cy".
\<close>

theorem render_authors_string_three_is_None:
  "render_authors_string [''Ann'', ''Bo'', ''Cy''] = Inr None
   \<and> render_authors_string [''Ann'', ''Bo'', ''Cy''] \<noteq> Inr (Some ''Ann, Bo, and Cy'')
   \<and> render_authors_string [''Ann'', ''Bo''] = Inr None"
  by (simp add: render_authors_string_def)

text \<open>
  Claim C8. On the empty author list the function raises (ValueError, the NoAuthors
  condition of the specification) and returns no string.
\<close>

theorem render_authors_string_empty_raises:
  "render_authors_string [] = Inl ValueError"
  by (simp add: render_authors_string_def)

section \<open>The posts of a project\<close>

lemma PostBuildData_eq_iff [simp]: "PostBuildData_eq p q \<longleftrightarrow> p = q"
  by (auto simp add: PostBuildData_eq_def)

lemma set_add_eq: "set_add env x s = (if x \<in> set s then s else s @ [x])"
  by (auto simp add: set_add_def list_ex_iff)

lemma proj_posts_fold_set:
  "set (fold (\<lambda>post proj_posts.
          case PostData.project (PostBuildData.data post) of
            None \<Rightarrow> proj_posts
          | Some ps \<Rightarrow>
              if ProjectData.name proj \<in> set ps then set_add env post proj_posts
              else proj_posts) posts acc)
   = set acc \<union> {p \<in> set posts. \<exists>ps. PostData.project (PostBuildData.data p) = Some ps \<and> ProjectData.name proj \<in> set ps}"
  by (induction posts arbitrary: acc) (auto simp add: set_add_eq split: option.splits)

lemma proj_posts_fold_distinct:
  "distinct acc \<Longrightarrow> distinct (fold (\<lambda>post proj_posts.
          case PostData.project (PostBuildData.data post) of
            None \<Rightarrow> proj_posts
          | Some ps \<Rightarrow>
              if ProjectData.name proj \<in> set ps then set_add env post proj_posts
              else proj_posts) posts acc)"
  by (induction posts arbitrary: acc) (auto simp add: set_add_eq split: option.splits)

lemma set_proj_posts_of:
  "set (proj_posts_of env proj posts)
   = {p \<in> set posts. \<exists>ps. PostData.project (PostBuildData.data p) = Some ps \<and> ProjectData.name proj \<in> set ps}"
  by (simp add: proj_posts_of_def proj_posts_fold_set)

lemma distinct_proj_posts_of: "distinct (proj_posts_of env proj posts)"
  by (simp add: proj_posts_of_def proj_posts_fold_distinct)

text \<open>
  Claim C4. A built post is in the set of posts of a project exactly when it is one of the
  posts given and the name of the project is a member of its \<^verbatim>\<open>projects\<close> field. A post
  whose field is \<^verbatim>\<open>None\<close> or the empty list is in the set of no project, and a post that
  names the project is never left out.
\<close>

theorem proj_posts_membership:
  "(p \<in> set (proj_posts_of env proj posts)
      \<longleftrightarrow> p \<in> set posts
          \<and> (\<exists>ps. PostData.project (PostBuildData.data p) = Some ps \<and> ProjectData.name proj \<in> set ps))
   \<and> (PostData.project (PostBuildData.data p) = None
        \<or> PostData.project (PostBuildData.data p) = Some []
      \<longrightarrow> p \<notin> set (proj_posts_of env proj posts))"
  by (auto simp add: set_proj_posts_of)

theorem proj_posts_membership_witness:
  "demo_post ''first'' ''First'' 1 (Some [''siteA'']) []
     \<in> set (proj_posts_of demo_env (demo_project ''siteA'')
              [demo_post ''first'' ''First'' 1 (Some [''siteA'']) [],
               demo_post ''second'' ''Second'' 6 None []])
   \<and> demo_post ''first'' ''First'' 1 (Some [''siteA'']) []
     \<notin> set (proj_posts_of demo_env (demo_project ''siteB'')
              [demo_post ''first'' ''First'' 1 (Some [''siteA'']) [],
               demo_post ''second'' ''Second'' 6 None []])
   \<and> PostData.project (PostBuildData.data (demo_post ''second'' ''Second'' 6 None [])) = None
   \<and> demo_post ''second'' ''Second'' 6 None []
     \<notin> set (proj_posts_of demo_env (demo_project ''siteA'')
              [demo_post ''first'' ''First'' 1 (Some [''siteA'']) [],
               demo_post ''second'' ''Second'' 6 None []])"
  using
    proj_posts_membership [where p = "demo_post ''first'' ''First'' 1 (Some [''siteA'']) []"
      and env = demo_env and proj = "demo_project ''siteA''"
      and posts = "[demo_post ''first'' ''First'' 1 (Some [''siteA'']) [],
                    demo_post ''second'' ''Second'' 6 None []]"]
    proj_posts_membership [where p = "demo_post ''first'' ''First'' 1 (Some [''siteA'']) []"
      and env = demo_env and proj = "demo_project ''siteB''"
      and posts = "[demo_post ''first'' ''First'' 1 (Some [''siteA'']) [],
                    demo_post ''second'' ''Second'' 6 None []]"]
    proj_posts_membership [where p = "demo_post ''second'' ''Second'' 6 None []"
      and env = demo_env and proj = "demo_project ''siteA''"
      and posts = "[demo_post ''first'' ''First'' 1 (Some [''siteA'']) [],
                    demo_post ''second'' ''Second'' 6 None []]"]
  by (simp add: demo_post_def demo_project_def)

text \<open>
  Claim C2, as stated: two built posts with equal titles are one element of the set. The
  two posts below have the same title and different directories, and both are in the set.
\<close>

theorem same_title_posts_both_kept:
  "PostData.title (PostBuildData.data (demo_post ''a'' ''Same title'' 1 (Some [''siteA'']) []))
     = PostData.title (PostBuildData.data (demo_post ''b'' ''Same title'' 6 (Some [''siteA'']) []))
   \<and> proj_posts_of demo_env (demo_project ''siteA'')
        [demo_post ''a'' ''Same title'' 1 (Some [''siteA'']) [],
         demo_post ''b'' ''Same title'' 6 (Some [''siteA'']) []]
      = [demo_post ''a'' ''Same title'' 1 (Some [''siteA'']) [],
         demo_post ''b'' ''Same title'' 6 (Some [''siteA'']) []]
   \<and> length (proj_posts_of demo_env (demo_project ''siteA'')
        [demo_post ''a'' ''Same title'' 1 (Some [''siteA'']) [],
         demo_post ''b'' ''Same title'' 6 (Some [''siteA'']) []]) = 2"
  by (simp add: proj_posts_of_def set_add_def PostBuildData_hash_def PostBuildData_eq_def
        demo_post_def demo_project_def)

text \<open>
  Claim C2, amended. The title only gives the hash. \<^verbatim>\<open>add\<close> leaves the set unchanged
  exactly when it holds a record equal in all fields to the new one, so the set holds
  every post of the project once: as many elements as there are different records.
\<close>

theorem proj_posts_identified_by_all_fields:
  "distinct (proj_posts_of env proj posts)
   \<and> length (proj_posts_of env proj posts)
       = card {p \<in> set posts. \<exists>ps. PostData.project (PostBuildData.data p) = Some ps
                                    \<and> ProjectData.name proj \<in> set ps}
   \<and> (set_add env x s = s \<longleftrightarrow> list_ex (\<lambda>e. PostBuildData_eq e x) s)"
proof -
  have "length (proj_posts_of env proj posts) = card (set (proj_posts_of env proj posts))"
    using distinct_proj_posts_of by (simp add: distinct_card)
  then show ?thesis
    by (auto simp add: set_proj_posts_of distinct_proj_posts_of set_add_eq list_ex_iff)
qed

section \<open>The header of a project page\<close>

text \<open>
  Claim C3. The header of a project page is to carry a title made from the name of the
  project. The title is the text \<^verbatim>\<open>project.name - Alia Lescoulie\<close> for every project:
  the pages of siteA and siteB get the same header title, which holds neither name. (The
  header template of the small site prints its title; the page template prints the header,
  the project name and the blocks of the posts.)
\<close>

theorem project_header_title_constant:
  "project_page_title (demo_project ''siteA'') = ''project.name - Alia Lescoulie''
   \<and> project_page_title (demo_project ''siteB'') = ''project.name - Alia Lescoulie''
   \<and> build_project_page_html demo_env (demo_project ''siteA'') [] (Path ''templates'')
        (Path ''projects'') (Path ''site_out'') (Path ''posts'') (Path ''projects'') demo_fs
      = Inr \<lparr>ProjectHTML.data = demo_project ''siteA'',
             proj_src = ''project.name - Alia Lescoulie|siteA|''\<rparr>
   \<and> build_project_page_html demo_env (demo_project ''siteB'') [] (Path ''templates'')
        (Path ''projects'') (Path ''site_out'') (Path ''posts'') (Path ''projects'') demo_fs
      = Inr \<lparr>ProjectHTML.data = demo_project ''siteB'',
             proj_src = ''project.name - Alia Lescoulie|siteB|''\<rparr>"
  by (simp add: build_project_page_html_def proj_posts_of_def demo_templates_def
      echo_template_def show_tval_def project_page_title_def demo_project_def Path_def joinpath_def
      read_text_def lookup_def demo_fs_def build_post_blocks_def sorted_py_def link_root_def)

section \<open>Project descriptors\<close>

lemma subscript_JObj [simp]:
  "subscript (JObj kvs) k = (case map_of kvs k of None \<Rightarrow> Inl KeyError | Some v \<Rightarrow> Inr v)"
  by (simp add: subscript_def)

lemma Path_of_json_cases:
  "Path_of_json v = Inl TypeError \<or> (\<exists>p. Path_of_json v = Inr p)"
  by (cases v) (simp_all add: Path_of_json_def)

lemma subscript_Path_cases:
  "and_then (subscript j k) Path_of_json = Inl KeyError
   \<or> and_then (subscript j k) Path_of_json = Inl TypeError
   \<or> (\<exists>p. and_then (subscript j k) Path_of_json = Inr p)"
  using Path_of_json_cases
  by (cases j) (auto simp add: subscript_def split: option.splits)

lemma subscript_cases:
  "subscript j k = Inl KeyError \<or> subscript j k = Inl TypeError \<or> (\<exists>v. subscript j k = Inr v)"
  by (cases j) (auto simp add: subscript_def split: option.splits)

lemma parse_proj_null_static:
  assumes "read_text proj_json_path fs = Inr text"
    and "json_load env text = Inr (JObj kvs)"
    and "map_of kvs ''static_dir'' = Some JNull"
  shows "parse_proj env proj_json_path proj_src_dir fs = Inl KeyError
         \<or> parse_proj env proj_json_path proj_src_dir fs = Inl TypeError"
proof -
  have st: "and_then (subscript (JObj kvs) ''static_dir'') Path_of_json = Inl TypeError"
    using assms(3) by (simp add: Path_of_json_def)
  consider (a) "and_then (subscript (JObj kvs) ''file_path'') Path_of_json = Inl KeyError"
    | (b) "and_then (subscript (JObj kvs) ''file_path'') Path_of_json = Inl TypeError"
    | (c) p where "and_then (subscript (JObj kvs) ''file_path'') Path_of_json = Inr p"
    using subscript_Path_cases by blast
  then show ?thesis
  proof cases
    case a then show ?thesis using assms(1,2) by (simp add: parse_proj_def)
  next
    case b then show ?thesis using assms(1,2) by (simp add: parse_proj_def)
  next
    case c
    consider (a2) "and_then (subscript (JObj kvs) ''proj_dir'') Path_of_json = Inl KeyError"
      | (b2) "and_then (subscript (JObj kvs) ''proj_dir'') Path_of_json = Inl TypeError"
      | (c2) d where "and_then (subscript (JObj kvs) ''proj_dir'') Path_of_json = Inr d"
      using subscript_Path_cases by blast
    then show ?thesis
    proof cases
      case a2 then show ?thesis using assms(1,2) c by (simp add: parse_proj_def)
    next
      case b2 then show ?thesis using assms(1,2) c by (simp add: parse_proj_def)
    next
      case c2
      consider (a3) "subscript (JObj kvs) ''format'' = Inl KeyError"
        | (b3) "subscript (JObj kvs) ''format'' = Inl TypeError"
        | (c3) f where "subscript (JObj kvs) ''format'' = Inr f"
        using subscript_cases by blast
      then show ?thesis
      proof cases
        case a3 then show ?thesis using assms(1,2) c c2 by (simp add: parse_proj_def)
      next
        case b3 then show ?thesis using assms(1,2) c c2 by (simp add: parse_proj_def)
      next
        case c3 then show ?thesis using assms(1,2) c c2 st by (simp add: parse_proj_def)
      qed
    qed
  qed
qed

lemma parse_proj_static_Some:
  "parse_proj env proj_json_path proj_src_dir fs = Inr pd \<Longrightarrow> \<exists>s. ProjectData.static pd = Some s"
  by (auto simp add: parse_proj_def and_then_eq_Inr)


lemma build_project_page_html_data:
  "build_project_page_html env proj posts td psd sbd pbd prbd fs = Inr html
   \<Longrightarrow> ProjectHTML.data html = proj"
  by (auto simp add: build_project_page_html_def Let_def and_then_eq_Inr)

lemma write_project_data:
  "write_project html sbd prbd fs = Inr (pbuild, fs')
   \<Longrightarrow> ProjectBuildData.data pbuild = ProjectHTML.data html"
  by (auto simp add: write_project_def Let_def and_then_eq_Inr)

text \<open>
  Claim C9. A project descriptor that decodes to an object whose \<^verbatim>\<open>static_dir\<close> is null
  makes \<^verbatim>\<open>parse_proj\<close> raise: TypeError from \<^verbatim>\<open>Path(None)\<close>, or the KeyError or
  TypeError of an earlier field. So a record that \<^verbatim>\<open>parse_proj\<close> returns has a static
  path, and so has the record that \<^verbatim>\<open>write_project\<close> hands to
  \<^verbatim>\<open>copy_project_files\<close> after the page was built from it: the \<^verbatim>\<open>None\<close> branch there
  is not taken for a parsed project.
\<close>

theorem parse_proj_static_never_None:
  "(read_text proj_json_path fs = Inr content \<and> json_load env content = Inr (JObj kvs)
      \<and> map_of kvs ''static_dir'' = Some JNull
    \<longrightarrow> parse_proj env proj_json_path proj_src_dir fs = Inl KeyError
        \<or> parse_proj env proj_json_path proj_src_dir fs = Inl TypeError)
   \<and> (parse_proj env parsed_json_path parsed_src_dir parsed_fs = Inr proj
      \<longrightarrow> ProjectData.static proj \<noteq> None
          \<and> (\<forall>html pbuild fs_a fs_b.
                build_project_page_html env proj posts td psd sbd pbd prbd parsed_fs = Inr html
                \<and> write_project html sbd prbd fs_a = Inr (pbuild, fs_b)
                \<longrightarrow> ProjectData.static (ProjectBuildData.data pbuild) \<noteq> None))"
  using parse_proj_null_static [of proj_json_path fs content env kvs proj_src_dir]
    parse_proj_static_Some [of env parsed_json_path parsed_src_dir parsed_fs proj]
    build_project_page_html_data [of env proj posts td psd sbd pbd prbd parsed_fs]
    write_project_data
  by (metis option.distinct(1))

lemma demo_parse_null:
  "parse_proj demo_env (PurePath [] [''projects'', ''siteB'', ''proj.json''])
          (PurePath [] [''projects'']) demo_fs = Inl TypeError"
  by (simp add: parse_proj_def read_text_def lookup_def demo_fs_def demo_json_load_def
        demo_proj_json_def Path_of_json_def Path_def)

lemma demo_parse_static:
  "parse_proj demo_env (PurePath [] [''projects'', ''siteA'', ''proj.json''])
          (PurePath [] [''projects'']) demo_fs = Inr (demo_project ''siteA'')"
  by (simp add: parse_proj_def read_text_def lookup_def demo_fs_def demo_json_load_def
        demo_proj_json_def Path_of_json_def Path_def datetime_date_def c_int_def days_in_month_def
        is_leap_def as_str_def demo_project_def)

theorem parse_proj_static_never_None_witness:
  "read_text (PurePath [] [''projects'', ''siteB'', ''proj.json'']) demo_fs = Inr ''null static''
   \<and> json_load demo_env ''null static'' = Inr (demo_proj_json JNull)
   \<and> parse_proj demo_env (PurePath [] [''projects'', ''siteB'', ''proj.json''])
          (PurePath [] [''projects'']) demo_fs = Inl TypeError
   \<and> parse_proj demo_env (PurePath [] [''projects'', ''siteA'', ''proj.json''])
          (PurePath [] [''projects'']) demo_fs = Inr (demo_project ''siteA'')
   \<and> ProjectData.static (demo_project ''siteA'') \<noteq> None"
proof -
  have r: "read_text (PurePath [] [''projects'', ''siteB'', ''proj.json'']) demo_fs
             = Inr ''null static''"
    by (simp add: read_text_def lookup_def demo_fs_def)
  have j: "json_load demo_env ''null static'' = Inr (demo_proj_json JNull)"
    by (simp add: demo_json_load_def)
  have k: "map_of [(''file_path'', JStr ''about.md''), (''proj_dir'', JStr ''siteA''),
           (''format'', JStr ''markdown''), (''static_dir'', JNull),
           (''thumbnail'', JStr ''thumb.png''), (''project'', JStr ''siteA''),
           (''day'', JInt 1), (''month'', JInt 2), (''year'', JInt 2024),
           (''description'', JStr ''A site'')] ''static_dir'' = Some JNull"
    by simp
  note t = parse_proj_static_never_None
      [where proj_json_path = "PurePath [] [''projects'', ''siteB'', ''proj.json'']"
         and fs = demo_fs and content = "''null static''" and env = demo_env
         and proj_src_dir = "PurePath [] [''projects'']"
         and parsed_json_path = "PurePath [] [''projects'', ''siteA'', ''proj.json'']"
         and parsed_src_dir = "PurePath [] [''projects'']" and parsed_fs = demo_fs
         and proj = "demo_project ''siteA''"]
  from t r j k demo_parse_null demo_parse_static show ?thesis
    by (simp add: demo_proj_json_def)
qed

section \<open>An empty blog\<close>

text \<open>
  Claim C10. When the scan finds no post descriptor, \<^verbatim>\<open>build_blog\<close> returns the empty
  list and the file system it was given: no post page, no blog page and no tag page is
  written.
\<close>

theorem build_blog_no_posts:
  "glob_sub ''post.json'' post_src_dir fs = []
   \<Longrightarrow> build_blog env post_src_dir post_build_dir site_build_dir templates_dir post_template_name fs
       = Inr ([], fs)"
  by (simp add: build_blog_def collect_posts_def)

theorem build_blog_no_posts_witness:
  "glob_sub ''post.json'' (Path ''blog_posts'') demo_fs = []
   \<and> build_blog demo_env (Path ''blog_posts'') (Path ''posts'') (Path ''site_out'')
        (Path ''templates'') ''post_temp.html.jinja'' demo_fs = Inr ([], demo_fs)"
proof -
  have h: "glob_sub ''post.json'' (Path ''blog_posts'') demo_fs = []"
    by (simp add: glob_sub_def demo_fs_def Path_def below_def List.map_filter_simps)
  show ?thesis using h build_blog_no_posts [OF h] by simp
qed

section \<open>Listings\<close>

lemma sorted_py_desc:
  "sorted_wrt (\<lambda>a b. key b \<le> key a) (sorted_py key True xs)"
proof -
  have "sorted (map key (sort_key key (rev xs)))" by (rule sorted_sort_key)
  then have "sorted_wrt (\<lambda>a b. key a \<le> key b) (sort_key key (rev xs))"
    by (simp add: sorted_map)
  then show ?thesis
    by (simp add: sorted_py_def sorted_wrt_rev)
qed

lemma sorted_py_asc:
  "sorted_wrt (\<lambda>a b. key a \<le> key b) (sorted_py key False xs)"
  using sorted_sort_key [of key xs] by (simp add: sorted_py_def sorted_map)

lemma sorted_py_stable:
  "filter (\<lambda>x. key x = k) (sorted_py key reverse xs) = filter (\<lambda>x. key x = k) xs"
proof (cases reverse)
  case True
  have "filter (\<lambda>x. key x = k) (rev (sort_key key (rev xs)))
        = rev (filter (\<lambda>x. key x = k) (sort_key key (rev xs)))"
    by (simp add: rev_filter)
  also have "\<dots> = rev (filter (\<lambda>x. key x = k) (rev xs))"
    by (simp only: sort_key_stable)
  also have "\<dots> = filter (\<lambda>x. key x = k) xs"
    by (simp add: rev_filter)
  finally show ?thesis using True by (simp add: sorted_py_def)
next
  case False
  then show ?thesis by (simp add: sorted_py_def sort_key_stable)
qed

lemma set_sorted_py: "set (sorted_py key reverse xs) = set xs \<and> length (sorted_py key reverse xs) = length xs"
  by (auto simp add: sorted_py_def)

lemma map_result_eq_Inr:
  "map_result f xs = Inr ys \<Longrightarrow> map Inr ys = map f xs"
proof (induction xs arbitrary: ys)
  case Nil
  then show ?case by simp
next
  case (Cons x xs)
  then show ?case by (auto simp add: and_then_eq_Inr)
qed

lemma lookup_update:
  "lookup (AList.update p v fs) q
   = (if parts q = [] then Some Dir else if q = p then Some v else lookup fs q)"
  by (simp add: lookup_def update_conv')

lemma write_text_Inr:
  "write_text p s fs = Inr fs' \<Longrightarrow> fs' = AList.update p (File s) fs \<and> parts p \<noteq> []"
  by (auto simp add: write_text_def lookup_def split: option.splits node.splits if_splits)

lemma write_text_lookup:
  "write_text p s fs = Inr fs' \<Longrightarrow> lookup fs' p = Some (File s)"
  using write_text_Inr [of p s fs fs'] by (simp add: lookup_update)

lemma build_post_blocks_Inr:
  "build_post_blocks env posts td pbd depth key reverse = Inr blocks
   \<Longrightarrow> \<exists>block. get_template env td ''post_block.html.jinja'' = Inr block
         \<and> map Inr blocks
           = map (render_post_block env block (link_root depth) td pbd depth)
               (sorted_py key reverse posts)"
  by (auto simp add: build_post_blocks_def and_then_eq_Inr Let_def dest: map_result_eq_Inr)

lemma build_blog_page_Inr:
  "build_blog_page env posts td sbd pbd page_path ttl fs = Inr fs'
   \<Longrightarrow> \<exists>blog_page header_text navbar_text blocks page_text.
         get_template env td ''blog.html.jinja'' = Inr blog_page
         \<and> build_post_blocks env posts td pbd 0 date_sort True = Inr blocks
         \<and> blog_page [(''header'', TStr header_text), (''navbar'', TStr navbar_text),
                       (''title'', TStr ttl), (''posts'', TStr (str_join [CHR 0x0A] blocks))]
             = Inr page_text
         \<and> write_text (joinpath sbd page_path) page_text fs = Inr fs'"
  unfolding build_blog_page_def and_then_eq_Inr by blast

lemma build_project_page_html_Inr:
  "build_project_page_html env proj posts td psd sbd pbd prbd fs = Inr html
   \<Longrightarrow> \<exists>proj_page header_text navbar_text proj_html blocks.
         get_template env td ''project_page.html.jinja'' = Inr proj_page
         \<and> build_post_blocks env (iter_post_set env (proj_posts_of env proj posts)) td pbd 2
               date_sort False = Inr blocks
         \<and> proj_page [(''header'', TStr header_text), (''navbar'', TStr navbar_text),
                       (''project_name'', TStr (ProjectData.name proj)),
                       (''proj_text'', TStr proj_html),
                       (''posts'', TStr (str_join [CHR 0x0A] blocks))]
             = Inr (proj_src html)"
  unfolding build_project_page_html_def Let_def and_then_eq_Inr by (auto, blast)

lemma str_nat_1: "str_nat (Suc 0) = ''1''"
  by (simp add: str_nat.simps [of "Suc 0"] digit_char_def)

lemma str_nat_31: "str_nat 31 = ''31''"
  by (simp add: str_nat.simps [of 31] str_nat.simps [of 3] digit_char_def)

lemma str_nat_2023: "str_nat 2023 = ''2023''"
  by (simp add: str_nat.simps [of 2023] str_nat.simps [of 202] str_nat.simps [of 20]
        str_nat.simps [of 2] digit_char_def)

lemma str_nat_2024: "str_nat 2024 = ''2024''"
  by (simp add: str_nat.simps [of 2024] str_nat.simps [of 202] str_nat.simps [of 20]
        str_nat.simps [of 2] digit_char_def)

lemma demo_blocks:
  "build_post_blocks demo_env
        [demo_post ''jan'' ''January post'' 1 None [], demo_post ''june'' ''June post'' 6 None [],
         old_post None]
        (PurePath [] [''templates'']) (PurePath [] [''posts'']) 0 date_sort True
   = Inr [''June post|June 1, 2024'', ''January post|January 1, 2024'',
          ''Old post|December 31, 2023'']"
  by (simp add: build_post_blocks_def demo_templates_def sorted_py_def date_sort_def date_key_def
        demo_post_def old_post_def render_post_block_def render_authors_string_def
        render_tags_def echo_template_def show_tval_def render_date_string_def month_names_def
        str_nat_1 str_nat_31 str_nat_2023 str_nat_2024 opt_tval_def)

lemma demo_blog_page:
  "build_blog_page demo_env
        [demo_post ''jan'' ''January post'' 1 None [], demo_post ''june'' ''June post'' 6 None [],
         old_post None]
        (PurePath [] [''templates'']) (PurePath [] [''site_out'']) (PurePath [] [''posts''])
        (PurePath [] [''blog.html'']) ''Blog'' demo_fs
   = Inr (demo_fs @ [(PurePath [] [''site_out'', ''blog.html''],
            File (''Blog|June post|June 1, 2024'' @ [CHR 0x0A] @ ''January post|January 1, 2024''
                  @ [CHR 0x0A] @ ''Old post|December 31, 2023''))])"
  by (simp add: build_blog_page_def demo_blocks demo_templates_def echo_template_def show_tval_def
        write_text_def joinpath_def Path_def lookup_def parent_def demo_fs_def)

lemma demo_project_blocks:
  "build_post_blocks demo_env
        (proj_posts_of demo_env (demo_project ''siteA'')
           [demo_post ''june'' ''June post'' 6 (Some [''siteA'']) [], old_post (Some [''siteA'']),
            demo_post ''jan'' ''January post'' 1 (Some [''siteA'']) []])
        (PurePath [] [''templates'']) (PurePath [] [''posts'']) 2 date_sort False
   = Inr [''Old post|December 31, 2023'', ''January post|January 1, 2024'',
          ''June post|June 1, 2024'']"
  by (simp add: build_post_blocks_def demo_templates_def sorted_py_def date_sort_def date_key_def
        demo_post_def old_post_def render_post_block_def render_authors_string_def
        render_tags_def echo_template_def show_tval_def render_date_string_def month_names_def
        str_nat_1 str_nat_31 str_nat_2023 str_nat_2024 opt_tval_def proj_posts_of_def
        set_add_def demo_project_def PostBuildData_hash_def)

lemma date_sort_le:
  "date_sort a \<le> date_sort b
   \<longleftrightarrow> date_le (PostData.date (PostBuildData.data a)) (PostData.date (PostBuildData.data b))"
  by (auto simp add: date_sort_def date_key_def date_le_def)

lemma date_sort_eq:
  "date_sort p = date_key d \<longleftrightarrow> PostData.date (PostBuildData.data p) = d"
  by (auto simp add: date_sort_def date_key_def)

text \<open>
  Claim C5. The key of the sort is the date of the post, and the order of the keys is the
  order of the calendar: year, then month, then day. \<^verbatim>\<open>sorted\<close> with this key puts the
  posts in descending order of date when reversed (a post is never followed by a later
  one) and in ascending order when not, keeps the given order among posts of the same
  date, and neither adds nor drops a post. The blog page (and every tag page) renders the
  blocks of the posts in the reversed order, most recent first, and writes them to its
  file; a project page renders the blocks of its posts in ascending order.
\<close>

theorem listings_sorted_by_date:
  "(date_sort a \<le> date_sort b
      \<longleftrightarrow> year (PostData.date (PostBuildData.data a)) < year (PostData.date (PostBuildData.data b))
          \<or> (year (PostData.date (PostBuildData.data a)) = year (PostData.date (PostBuildData.data b))
             \<and> (month (PostData.date (PostBuildData.data a))
                   < month (PostData.date (PostBuildData.data b))
                \<or> (month (PostData.date (PostBuildData.data a))
                      = month (PostData.date (PostBuildData.data b))
                   \<and> day (PostData.date (PostBuildData.data a))
                       \<le> day (PostData.date (PostBuildData.data b))))))
   \<and> sorted_wrt
        (\<lambda>x y. date_le (PostData.date (PostBuildData.data y)) (PostData.date (PostBuildData.data x)))
        (sorted_py date_sort True posts)
   \<and> sorted_wrt
        (\<lambda>x y. date_le (PostData.date (PostBuildData.data x)) (PostData.date (PostBuildData.data y)))
        (sorted_py date_sort False posts)
   \<and> filter (\<lambda>p. PostData.date (PostBuildData.data p) = d) (sorted_py date_sort reverse posts)
       = filter (\<lambda>p. PostData.date (PostBuildData.data p) = d) posts
   \<and> set (sorted_py date_sort reverse posts) = set posts
   \<and> length (sorted_py date_sort reverse posts) = length posts
   \<and> (build_blog_page env posts td sbd pbd page_path ttl fs = Inr fs'
      \<longrightarrow> (\<exists>blog_page header_text navbar_text block blocks page_text.
            get_template env td ''blog.html.jinja'' = Inr blog_page
            \<and> get_template env td ''post_block.html.jinja'' = Inr block
            \<and> map Inr blocks
                = map (render_post_block env block (link_root 0) td pbd 0)
                    (sorted_py date_sort True posts)
            \<and> blog_page [(''header'', TStr header_text), (''navbar'', TStr navbar_text),
                          (''title'', TStr ttl), (''posts'', TStr (str_join [CHR 0x0A] blocks))]
                = Inr page_text
            \<and> lookup fs' (joinpath sbd page_path) = Some (File page_text)))
   \<and> (build_project_page_html env proj posts td psd sbd pbd prbd fs = Inr html
      \<longrightarrow> (\<exists>proj_page header_text navbar_text proj_html block blocks.
            get_template env td ''project_page.html.jinja'' = Inr proj_page
            \<and> get_template env td ''post_block.html.jinja'' = Inr block
            \<and> map Inr blocks
                = map (render_post_block env block (link_root 2) td pbd 2)
                    (sorted_py date_sort False (iter_post_set env (proj_posts_of env proj posts)))
            \<and> proj_page [(''header'', TStr header_text), (''navbar'', TStr navbar_text),
                          (''project_name'', TStr (ProjectData.name proj)),
                          (''proj_text'', TStr proj_html),
                          (''posts'', TStr (str_join [CHR 0x0A] blocks))]
                = Inr (proj_src html)))"
proof -
  have blog: "\<exists>blog_page header_text navbar_text block blocks page_text.
            get_template env td ''blog.html.jinja'' = Inr blog_page
            \<and> get_template env td ''post_block.html.jinja'' = Inr block
            \<and> map Inr blocks
                = map (render_post_block env block (link_root 0) td pbd 0)
                    (sorted_py date_sort True posts)
            \<and> blog_page [(''header'', TStr header_text), (''navbar'', TStr navbar_text),
                          (''title'', TStr ttl), (''posts'', TStr (str_join [CHR 0x0A] blocks))]
                = Inr page_text
            \<and> lookup fs' (joinpath sbd page_path) = Some (File page_text)"
    if h: "build_blog_page env posts td sbd pbd page_path ttl fs = Inr fs'"
  proof -
    from build_blog_page_Inr [OF h] obtain blog_page header_text navbar_text blocks page_text
      where a: "get_template env td ''blog.html.jinja'' = Inr blog_page"
        and b: "build_post_blocks env posts td pbd 0 date_sort True = Inr blocks"
        and c: "blog_page [(''header'', TStr header_text), (''navbar'', TStr navbar_text),
                       (''title'', TStr ttl), (''posts'', TStr (str_join [CHR 0x0A] blocks))]
                 = Inr page_text"
        and d: "write_text (joinpath sbd page_path) page_text fs = Inr fs'"
      by blast
    from build_post_blocks_Inr [OF b] obtain block
      where e: "get_template env td ''post_block.html.jinja'' = Inr block"
        and f: "map Inr blocks
                = map (render_post_block env block (link_root 0) td pbd 0)
                    (sorted_py date_sort True posts)"
      by blast
    from a c e f write_text_lookup [OF d] show ?thesis by blast
  qed
  have prj: "\<exists>proj_page header_text navbar_text proj_html block blocks.
            get_template env td ''project_page.html.jinja'' = Inr proj_page
            \<and> get_template env td ''post_block.html.jinja'' = Inr block
            \<and> map Inr blocks
                = map (render_post_block env block (link_root 2) td pbd 2)
                    (sorted_py date_sort False (iter_post_set env (proj_posts_of env proj posts)))
            \<and> proj_page [(''header'', TStr header_text), (''navbar'', TStr navbar_text),
                          (''project_name'', TStr (ProjectData.name proj)),
                          (''proj_text'', TStr proj_html),
                          (''posts'', TStr (str_join [CHR 0x0A] blocks))]
                = Inr (proj_src html)"
    if h: "build_project_page_html env proj posts td psd sbd pbd prbd fs = Inr html"
  proof -
    from build_project_page_html_Inr [OF h]
    obtain proj_page header_text navbar_text proj_html blocks
      where a: "get_template env td ''project_page.html.jinja'' = Inr proj_page"
        and b: "build_post_blocks env (iter_post_set env (proj_posts_of env proj posts)) td pbd 2
                  date_sort False = Inr blocks"
        and c: "proj_page [(''header'', TStr header_text), (''navbar'', TStr navbar_text),
                       (''project_name'', TStr (ProjectData.name proj)),
                       (''proj_text'', TStr proj_html),
                       (''posts'', TStr (str_join [CHR 0x0A] blocks))]
                 = Inr (proj_src html)"
      by blast
    from build_post_blocks_Inr [OF b] obtain block
      where e: "get_template env td ''post_block.html.jinja'' = Inr block"
        and f: "map Inr blocks
                = map (render_post_block env block (link_root 2) td pbd 2)
                    (sorted_py date_sort False (iter_post_set env (proj_posts_of env proj posts)))"
      by blast
    from a c e f show ?thesis by blast
  qed
  have key: "date_sort a \<le> date_sort b
      \<longleftrightarrow> year (PostData.date (PostBuildData.data a)) < year (PostData.date (PostBuildData.data b))
          \<or> (year (PostData.date (PostBuildData.data a)) = year (PostData.date (PostBuildData.data b))
             \<and> (month (PostData.date (PostBuildData.data a))
                   < month (PostData.date (PostBuildData.data b))
                \<or> (month (PostData.date (PostBuildData.data a))
                      = month (PostData.date (PostBuildData.data b))
                   \<and> day (PostData.date (PostBuildData.data a))
                       \<le> day (PostData.date (PostBuildData.data b)))))"
    by (auto simp add: date_sort_def date_key_def)
  have desc: "sorted_wrt
        (\<lambda>x y. date_le (PostData.date (PostBuildData.data y)) (PostData.date (PostBuildData.data x)))
        (sorted_py date_sort True posts)"
    using sorted_py_desc [of date_sort posts] by (simp add: date_sort_le)
  have asc: "sorted_wrt
        (\<lambda>x y. date_le (PostData.date (PostBuildData.data x)) (PostData.date (PostBuildData.data y)))
        (sorted_py date_sort False posts)"
    using sorted_py_asc [of date_sort posts] by (simp add: date_sort_le)
  have stable: "filter (\<lambda>p. PostData.date (PostBuildData.data p) = d)
                  (sorted_py date_sort reverse posts)
                = filter (\<lambda>p. PostData.date (PostBuildData.data p) = d) posts"
    using sorted_py_stable [of date_sort "date_key d" reverse posts] by (simp add: date_sort_eq)
  show ?thesis
    using key desc asc stable set_sorted_py [of date_sort reverse posts] blog prj
    by blast
qed

lemma demo_project_page:
  "build_project_page_html demo_env (demo_project ''siteA'')
        [demo_post ''june'' ''June post'' 6 (Some [''siteA'']) [], old_post (Some [''siteA'']),
            demo_post ''jan'' ''January post'' 1 (Some [''siteA'']) []]
        (PurePath [] [''templates'']) (PurePath [] [''projects'']) (PurePath [] [''site_out''])
        (PurePath [] [''posts'']) (PurePath [] [''projects'']) demo_fs
   = Inr \<lparr>ProjectHTML.data = demo_project ''siteA'',
          proj_src = ''project.name - Alia Lescoulie|siteA|Old post|December 31, 2023'' @ [CHR 0x0A]
                      @ ''January post|January 1, 2024'' @ [CHR 0x0A] @ ''June post|June 1, 2024''\<rparr>"
  by (simp add: build_project_page_html_def demo_project_blocks)
     (simp add: demo_templates_def echo_template_def show_tval_def project_page_title_def
        demo_project_def joinpath_def read_text_def lookup_def demo_fs_def)

lemma demo_sorted:
  "sorted_py date_sort True
     [demo_post ''jan'' ''January post'' 1 None [], demo_post ''june'' ''June post'' 6 None [],
         old_post None]
   = [demo_post ''june'' ''June post'' 6 None [], demo_post ''jan'' ''January post'' 1 None [],
      old_post None]"
  by (simp add: sorted_py_def date_sort_def date_key_def demo_post_def old_post_def)

theorem listings_sorted_by_date_witness:
  "build_blog_page demo_env
        [demo_post ''jan'' ''January post'' 1 None [], demo_post ''june'' ''June post'' 6 None [],
         old_post None]
        (PurePath [] [''templates'']) (PurePath [] [''site_out'']) (PurePath [] [''posts''])
        (PurePath [] [''blog.html'']) ''Blog'' demo_fs
     = Inr (demo_fs @ [(PurePath [] [''site_out'', ''blog.html''],
              File (''Blog|June post|June 1, 2024'' @ [CHR 0x0A] @ ''January post|January 1, 2024''
                  @ [CHR 0x0A] @ ''Old post|December 31, 2023''))])
   \<and> sorted_py date_sort True
        [demo_post ''jan'' ''January post'' 1 None [], demo_post ''june'' ''June post'' 6 None [],
         old_post None]
     = [demo_post ''june'' ''June post'' 6 None [], demo_post ''jan'' ''January post'' 1 None [],
        old_post None]
   \<and> PostData.date (PostBuildData.data (old_post None)) = \<lparr>year = 2023, month = 12, day = 31\<rparr>
   \<and> PostData.date (PostBuildData.data (demo_post ''jan'' ''January post'' 1 None []))
       = \<lparr>year = 2024, month = 1, day = 1\<rparr>
   \<and> date_sort (old_post None) \<le> date_sort (demo_post ''jan'' ''January post'' 1 None [])
   \<and> date_le (PostData.date (PostBuildData.data (old_post None)))
        (PostData.date (PostBuildData.data (demo_post ''jan'' ''January post'' 1 None [])))
   \<and> build_project_page_html demo_env (demo_project ''siteA'')
        [demo_post ''june'' ''June post'' 6 (Some [''siteA'']) [], old_post (Some [''siteA'']),
            demo_post ''jan'' ''January post'' 1 (Some [''siteA'']) []]
        (PurePath [] [''templates'']) (PurePath [] [''projects'']) (PurePath [] [''site_out''])
        (PurePath [] [''posts'']) (PurePath [] [''projects'']) demo_fs
     = Inr \<lparr>ProjectHTML.data = demo_project ''siteA'',
            proj_src = ''project.name - Alia Lescoulie|siteA|Old post|December 31, 2023'' @ [CHR 0x0A]
                      @ ''January post|January 1, 2024'' @ [CHR 0x0A] @ ''June post|June 1, 2024''\<rparr>"
  using
    listings_sorted_by_date
      [where posts = "[demo_post ''jan'' ''January post'' 1 None [], demo_post ''june'' ''June post'' 6 None [],
         old_post None]"
         and a = "old_post None" and b = "demo_post ''jan'' ''January post'' 1 None []"
         and env = demo_env and td = "PurePath [] [''templates'']"
         and sbd = "PurePath [] [''site_out'']" and pbd = "PurePath [] [''posts'']"
         and page_path = "PurePath [] [''blog.html'']" and ttl = "''Blog''" and fs = demo_fs
         and fs' = "demo_fs @ [(PurePath [] [''site_out'', ''blog.html''],
              File (''Blog|June post|June 1, 2024'' @ [CHR 0x0A] @ ''January post|January 1, 2024''
                  @ [CHR 0x0A] @ ''Old post|December 31, 2023''))]"]
    demo_blog_page demo_project_page demo_sorted
  by (simp add: old_post_def demo_post_def date_le_def)

section \<open>Tag pages\<close>

lemma dict_append_Inr:
  "map_of m k = Some vs \<Longrightarrow> dict_append k v m = Inr (AList.update k (vs @ [v]) m)"
  by (simp add: dict_append_def)

lemma tag_loop:
  "set tgs \<subseteq> fst ` set m
   \<Longrightarrow> \<exists>m'. for_each (\<lambda>tag. dict_append tag post) tgs m = Inr m'
          \<and> map fst m' = map fst m
          \<and> (\<forall>k. map_of m' k
                 = map_option (\<lambda>vs. vs @ replicate (count_list tgs k) post) (map_of m k))"
proof (induction tgs arbitrary: m)
  case Nil
  then show ?case by (simp add: option.map_ident)
next
  case (Cons t tgs)
  from Cons.prems have "t \<in> fst ` set m" by simp
  then obtain vs where vs: "map_of m t = Some vs"
    by (metis domD dom_map_of_conv_image_fst)
  let ?m1 = "AList.update t (vs @ [post]) m"
  have keys: "map fst ?m1 = map fst m"
    using \<open>t \<in> fst ` set m\<close> by (simp add: update_keys)
  then have "set tgs \<subseteq> fst ` set ?m1"
    using Cons.prems by (metis list.set_map set_subset_Cons subset_trans)
  from Cons.IH [OF this] obtain m' where
    run: "for_each (\<lambda>tag. dict_append tag post) tgs ?m1 = Inr m'"
    and k': "map fst m' = map fst ?m1"
    and v': "\<forall>k. map_of m' k
                 = map_option (\<lambda>vs. vs @ replicate (count_list tgs k) post) (map_of ?m1 k)"
    by blast
  have "for_each (\<lambda>tag. dict_append tag post) (t # tgs) m = Inr m'"
    using run vs by (simp add: dict_append_Inr)
  moreover have "map fst m' = map fst m" using k' keys by simp
  moreover have "map_of m' k
                 = map_option (\<lambda>vs. vs @ replicate (count_list (t # tgs) k) post) (map_of m k)" for k
  proof (cases "k = t")
    case True
    then show ?thesis using v' vs by (simp add: update_conv' replicate_app_Cons_same)
  next
    case False
    then show ?thesis using v' by (simp add: update_conv')
  qed
  ultimately show ?case by blast
qed

lemma post_loop:
  "(\<Union>post\<in>set posts. set (PostData.tags (PostBuildData.data post))) \<subseteq> fst ` set m
   \<Longrightarrow> \<exists>m'. for_each
            (\<lambda>post. for_each (\<lambda>tag. dict_append tag post) (PostData.tags (PostBuildData.data post)))
            posts m = Inr m'
          \<and> map fst m' = map fst m
          \<and> (\<forall>k. map_of m' k = map_option (\<lambda>vs. vs @ posts_tagged k posts) (map_of m k))"
proof (induction posts arbitrary: m)
  case Nil
  then show ?case by (simp add: posts_tagged_def option.map_ident)
next
  case (Cons p posts)
  from Cons.prems have "set (PostData.tags (PostBuildData.data p)) \<subseteq> fst ` set m" by simp
  from tag_loop [OF this, of p] obtain m1 where
    run1: "for_each (\<lambda>tag. dict_append tag p) (PostData.tags (PostBuildData.data p)) m = Inr m1"
    and k1: "map fst m1 = map fst m"
    and v1: "\<forall>k. map_of m1 k
               = map_option (\<lambda>vs. vs @ replicate (count_list (PostData.tags (PostBuildData.data p)) k) p)
                   (map_of m k)"
    by blast
  have "fst ` set m1 = fst ` set m" using k1 by (metis list.set_map)
  with Cons.prems have
    "(\<Union>post\<in>set posts. set (PostData.tags (PostBuildData.data post))) \<subseteq> fst ` set m1"
    by simp
  from Cons.IH [OF this] obtain m' where
    run: "for_each
            (\<lambda>post. for_each (\<lambda>tag. dict_append tag post) (PostData.tags (PostBuildData.data post)))
            posts m1 = Inr m'"
    and k': "map fst m' = map fst m1"
    and v': "\<forall>k. map_of m' k = map_option (\<lambda>vs. vs @ posts_tagged k posts) (map_of m1 k)"
    by blast
  have "for_each
            (\<lambda>post. for_each (\<lambda>tag. dict_append tag post) (PostData.tags (PostBuildData.data post)))
            (p # posts) m = Inr m'"
    using run1 run by simp
  moreover have "map fst m' = map fst m" using k' k1 by simp
  moreover have "map_of m' k = map_option (\<lambda>vs. vs @ posts_tagged k (p # posts)) (map_of m k)" for k
    using v' v1 by (cases "map_of m k") (simp_all add: posts_tagged_def)
  ultimately show ?case by blast
qed

lemma set_posts_tagged:
  "set (posts_tagged k posts) = {p \<in> set posts. k \<in> set (PostData.tags (PostBuildData.data p))}"
  by (induction posts) (auto simp add: posts_tagged_def count_list_0_iff)


lemma tags_map_of_Inr:
  assumes it: "set (iter_tag_set env (concat (map (\<lambda>post. PostData.tags (PostBuildData.data post)) posts)))
               = set (concat (map (\<lambda>post. PostData.tags (PostBuildData.data post)) posts))"
  shows "\<exists>m. tags_map_of env posts = Inr m
           \<and> distinct (map fst m)
           \<and> set (map fst m) = (\<Union>post\<in>set posts. set (PostData.tags (PostBuildData.data post)))
           \<and> (\<forall>tag tag_posts. (tag, tag_posts) \<in> set m \<longrightarrow> tag_posts = posts_tagged tag posts)"
proof -
  let ?tl = "concat (map (\<lambda>post. PostData.tags (PostBuildData.data post)) posts)"
  let ?m0 = "AList.clearjunk (map (\<lambda>tag. (tag, [] :: PostBuildData list)) (iter_tag_set env ?tl))"
  have keys0: "fst ` set ?m0 = set ?tl"
    using it by (simp add: dom_clearjunk image_image)
  have d0: "distinct (map fst ?m0)" by simp
  have v0: "map_of ?m0 k = Some vs \<Longrightarrow> vs = []" for k vs
    by (auto simp add: map_of_clearjunk dest!: map_of_SomeD)
  have "(\<Union>post\<in>set posts. set (PostData.tags (PostBuildData.data post))) \<subseteq> fst ` set ?m0"
    using keys0 by auto
  from post_loop [OF this] obtain m where
    run: "for_each
            (\<lambda>post. for_each (\<lambda>tag. dict_append tag post) (PostData.tags (PostBuildData.data post)))
            posts ?m0 = Inr m"
    and k: "map fst m = map fst ?m0"
    and v: "\<forall>k. map_of m k = map_option (\<lambda>vs. vs @ posts_tagged k posts) (map_of ?m0 k)"
    by blast
  have "tags_map_of env posts = Inr m"
    using run by (simp add: tags_map_of_def)
  moreover have dm: "distinct (map fst m)" using k d0 by simp
  moreover have "set (map fst m) = (\<Union>post\<in>set posts. set (PostData.tags (PostBuildData.data post)))"
    using k keys0 by (metis list.set_map set_concat set_map image_image)
  moreover have "tag_posts = posts_tagged tag posts" if "(tag, tag_posts) \<in> set m" for tag tag_posts
  proof -
    from that dm have "map_of m tag = Some tag_posts" by simp
    with v have "map_option (\<lambda>vs. vs @ posts_tagged tag posts) (map_of ?m0 tag) = Some tag_posts"
      by simp
    then obtain vs where "map_of ?m0 tag = Some vs" and "tag_posts = vs @ posts_tagged tag posts"
      by (cases "map_of ?m0 tag") auto
    with v0 show ?thesis by simp
  qed
  ultimately show ?thesis by blast
qed

lemma build_blog_page_writes:
  "build_blog_page env posts td sbd pbd page_path ttl fs = Inr fs'
   \<Longrightarrow> \<exists>page_text. fs' = AList.update (joinpath sbd page_path) (File page_text) fs
                  \<and> parts (joinpath sbd page_path) \<noteq> []"
  by (auto simp add: build_blog_page_def and_then_eq_Inr dest: write_text_Inr)

lemma tag_pages_loop:
  "for_each
     (\<lambda>(tag, tag_posts).
        build_blog_page env tag_posts td sbd pbd (Path (tag @ ''.html'')) (tag @ '' Blog Posts''))
     m fs = Inr fs'
   \<Longrightarrow> (\<forall>tag \<in> fst ` set m.
          \<exists>page_text. lookup fs' (joinpath sbd (Path (tag @ ''.html''))) = Some (File page_text))
       \<and> (\<forall>q. (\<exists>t. lookup fs q = Some (File t)) \<longrightarrow> (\<exists>t. lookup fs' q = Some (File t)))
       \<and> (\<forall>q. q \<notin> (\<lambda>tag. joinpath sbd (Path (tag @ ''.html''))) ` fst ` set m
              \<longrightarrow> lookup fs' q = lookup fs q)"
proof (induction m arbitrary: fs)
  case Nil
  then show ?case by simp
next
  case (Cons a m)
  obtain tag tag_posts where a: "a = (tag, tag_posts)" by (cases a)
  from Cons.prems a obtain fs1 where
    one: "build_blog_page env tag_posts td sbd pbd (Path (tag @ ''.html'')) (tag @ '' Blog Posts'') fs
            = Inr fs1"
    and rest: "for_each
       (\<lambda>(tag, tag_posts).
          build_blog_page env tag_posts td sbd pbd (Path (tag @ ''.html'')) (tag @ '' Blog Posts''))
       m fs1 = Inr fs'"
    by (auto simp add: and_then_eq_Inr)
  from build_blog_page_writes [OF one] obtain page_text where
    fs1: "fs1 = AList.update (joinpath sbd (Path (tag @ ''.html''))) (File page_text) fs"
    and ne: "parts (joinpath sbd (Path (tag @ ''.html''))) \<noteq> []"
    by blast
  have l1: "lookup fs1 q
            = (if parts q = [] then Some Dir
               else if q = joinpath sbd (Path (tag @ ''.html'')) then Some (File page_text)
               else lookup fs q)" for q
    by (simp add: fs1 lookup_update)
  note ih = Cons.IH [OF rest]
  have "\<exists>t. lookup fs' (joinpath sbd (Path (tg @ ''.html''))) = Some (File t)"
    if "tg \<in> fst ` set (a # m)" for tg
  proof (cases "tg \<in> fst ` set m")
    case True
    then show ?thesis using ih by blast
  next
    case False
    with that a have "tg = tag" by auto
    then have "\<exists>t. lookup fs1 (joinpath sbd (Path (tg @ ''.html''))) = Some (File t)"
      using l1 ne by simp
    then show ?thesis using ih by blast
  qed
  moreover have "\<exists>t. lookup fs' q = Some (File t)" if "\<exists>t. lookup fs q = Some (File t)" for q
  proof -
    from that have "\<exists>t. lookup fs1 q = Some (File t)"
      using l1 [of q] by (auto simp add: lookup_def)
    then show ?thesis using ih by blast
  qed
  moreover have "lookup fs' q = lookup fs q"
    if "q \<notin> (\<lambda>tag. joinpath sbd (Path (tag @ ''.html''))) ` fst ` set (a # m)" for q
  proof -
    from that a have q1: "q \<noteq> joinpath sbd (Path (tag @ ''.html''))"
      and q2: "q \<notin> (\<lambda>tag. joinpath sbd (Path (tag @ ''.html''))) ` fst ` set m"
      by auto
    from q2 ih have "lookup fs' q = lookup fs1 q" by blast
    also have "\<dots> = lookup fs q" using l1 [of q] q1 by (simp add: lookup_def)
    finally show ?thesis .
  qed
  ultimately show ?case by blast
qed

lemma map_result_total:
  "(\<And>x. x \<in> set xs \<Longrightarrow> \<exists>y. f x = Inr y) \<Longrightarrow> \<exists>ys. map_result f xs = Inr ys"
proof (induction xs)
  case Nil
  then show ?case by simp
next
  case (Cons x xs)
  from Cons.prems obtain y where "f x = Inr y" by auto
  moreover from Cons obtain ys where "map_result f xs = Inr ys" by auto
  ultimately show ?case by simp
qed

lemma render_tags_total:
  assumes "template_ok env td ''tag.html.jinja''"
  shows "\<exists>s. render_tags env tgs td depth = Inr s"
proof -
  from assms obtain t where t: "get_template env td ''tag.html.jinja'' = Inr t"
    and tt: "\<forall>b. \<exists>s. t b = Inr s" unfolding template_ok_def by blast
  have "\<exists>ys. map_result
           (\<lambda>tag. t [(''link'', TPath (joinpath (link_root depth) (Path (tag @ ''.html'')))),
                      (''tag'', TStr tag)]) tgs = Inr ys"
    by (rule map_result_total) (use tt in blast)
  then show ?thesis using t by (auto simp add: render_tags_def Let_def)
qed

lemma render_authors_string_total:
  "author_list \<noteq> [] \<Longrightarrow> \<exists>a. render_authors_string author_list = Inr a"
  by (auto simp add: render_authors_string_def)

lemma render_post_block_total:
  assumes "template_ok env td ''tag.html.jinja''" and "\<And>b. \<exists>s. block b = Inr s"
    and "PostData.authors (PostBuildData.data post) \<noteq> []"
  shows "\<exists>s. render_post_block env block rd td pbd depth post = Inr s"
proof -
  from render_authors_string_total [OF assms(3)] obtain a
    where a: "render_authors_string (PostData.authors (PostBuildData.data post)) = Inr a" by blast
  from render_tags_total [OF assms(1)] obtain s
    where s: "render_tags env (PostData.tags (PostBuildData.data post)) td depth = Inr s" by blast
  show ?thesis using a s assms(2) by (simp add: render_post_block_def)
qed

lemma build_post_blocks_total:
  assumes "template_ok env td ''header.html.jinja''" "template_ok env td ''navbar.html.jinja''"
    "template_ok env td ''post_block.html.jinja''" "template_ok env td ''blog.html.jinja''"
    "template_ok env td ''tag.html.jinja''"
    and "\<And>post. post \<in> set posts \<Longrightarrow> PostData.authors (PostBuildData.data post) \<noteq> []"
  shows "\<exists>blocks. build_post_blocks env posts td pbd depth key reverse = Inr blocks"
proof -
  from assms(1) obtain h where h: "get_template env td ''header.html.jinja'' = Inr h"
    unfolding template_ok_def by blast
  from assms(2) obtain n where n: "get_template env td ''navbar.html.jinja'' = Inr n"
    unfolding template_ok_def by blast
  from assms(3) obtain b where b: "get_template env td ''post_block.html.jinja'' = Inr b"
    and bt: "\<forall>x. \<exists>s. b x = Inr s" unfolding template_ok_def by blast
  from assms(4) obtain g where g: "get_template env td ''blog.html.jinja'' = Inr g"
    unfolding template_ok_def by blast
  have "\<exists>ys. map_result (render_post_block env b (link_root depth) td pbd depth)
               (sorted_py key reverse posts) = Inr ys"
  proof (rule map_result_total)
    fix x assume "x \<in> set (sorted_py key reverse posts)"
    then have "x \<in> set posts" by (auto simp add: sorted_py_def split: if_splits)
    then have "PostData.authors (PostBuildData.data x) \<noteq> []" by (rule assms(6))
    with assms(5) bt show "\<exists>y. render_post_block env b (link_root depth) td pbd depth x = Inr y"
      by (intro render_post_block_total) auto
  qed
  then show ?thesis using h n b g by (auto simp add: build_post_blocks_def Let_def)
qed

lemma build_blog_page_total:
  assumes t: "template_ok env td ''header.html.jinja''" "template_ok env td ''navbar.html.jinja''"
    "template_ok env td ''post_block.html.jinja''" "template_ok env td ''blog.html.jinja''"
    "template_ok env td ''tag.html.jinja''"
    and a: "\<And>post. post \<in> set posts \<Longrightarrow> PostData.authors (PostBuildData.data post) \<noteq> []"
    and w: "lookup fs (joinpath sbd page_path) \<noteq> Some Dir"
      "lookup fs (parent (joinpath sbd page_path)) = Some Dir"
  shows "\<exists>page_text. build_blog_page env posts td sbd pbd page_path ttl fs
           = Inr (AList.update (joinpath sbd page_path) (File page_text) fs)"
proof -
  from t(1) obtain h where h: "get_template env td ''header.html.jinja'' = Inr h"
    and ht: "\<forall>x. \<exists>s. h x = Inr s" unfolding template_ok_def by blast
  from t(2) obtain n where n: "get_template env td ''navbar.html.jinja'' = Inr n"
    and nt: "\<forall>x. \<exists>s. n x = Inr s" unfolding template_ok_def by blast
  from t(4) obtain g where g: "get_template env td ''blog.html.jinja'' = Inr g"
    and gt: "\<forall>x. \<exists>s. g x = Inr s" unfolding template_ok_def by blast
  from build_post_blocks_total [OF t a] obtain blocks
    where bl: "build_post_blocks env posts td pbd 0 date_sort True = Inr blocks" by blast
  from ht obtain hs where hs: "h [(''title'', TStr ''Blog'')] = Inr hs" by blast
  from nt obtain ns where ns: "n [] = Inr ns" by blast
  from gt obtain gs where gs: "g [(''header'', TStr hs), (''navbar'', TStr ns), (''title'', TStr ttl),
                                  (''posts'', TStr (str_join [CHR 0x0A] blocks))] = Inr gs" by blast
  have "write_text (joinpath sbd page_path) gs fs
        = Inr (AList.update (joinpath sbd page_path) (File gs) fs)"
    using w by (auto simp add: write_text_def split: option.splits node.splits)
  then show ?thesis using h n g bl hs ns gs by (auto simp add: build_blog_page_def)
qed


lemma tag_pages_loop_total:
  assumes t: "template_ok env td ''header.html.jinja''" "template_ok env td ''navbar.html.jinja''"
    "template_ok env td ''post_block.html.jinja''" "template_ok env td ''blog.html.jinja''"
    "template_ok env td ''tag.html.jinja''"
    and a: "\<forall>tag ps post. (tag, ps) \<in> set m \<and> post \<in> set ps
              \<longrightarrow> PostData.authors (PostBuildData.data post) \<noteq> []"
    and w: "\<forall>tag. tag \<in> fst ` set m
              \<longrightarrow> lookup fs (joinpath sbd (Path (tag @ ''.html''))) \<noteq> Some Dir
                  \<and> lookup fs (parent (joinpath sbd (Path (tag @ ''.html'')))) = Some Dir"
  shows "\<exists>fs'. for_each
           (\<lambda>(tag, tag_posts).
              build_blog_page env tag_posts td sbd pbd (Path (tag @ ''.html''))
                (tag @ '' Blog Posts''))
           m fs = Inr fs'"
  using a w
proof (induction m arbitrary: fs)
  case Nil
  then show ?case by simp
next
  case (Cons x m)
  obtain tag ps where x: "x = (tag, ps)" by (cases x)
  let ?p = "joinpath sbd (Path (tag @ ''.html''))"
  have au: "\<And>post. post \<in> set ps \<Longrightarrow> PostData.authors (PostBuildData.data post) \<noteq> []"
    using Cons.prems(1) x by auto
  have wt: "lookup fs ?p \<noteq> Some Dir" "lookup fs (parent ?p) = Some Dir"
    using Cons.prems(2) x by auto
  from build_blog_page_total [OF t au wt] obtain page_text where
    one: "build_blog_page env ps td sbd pbd (Path (tag @ ''.html'')) (tag @ '' Blog Posts'') fs
          = Inr (AList.update ?p (File page_text) fs)"
    by blast
  let ?fs1 = "AList.update ?p (File page_text) fs"
  have a': "\<forall>tag ps post. (tag, ps) \<in> set m \<and> post \<in> set ps
              \<longrightarrow> PostData.authors (PostBuildData.data post) \<noteq> []"
    using Cons.prems(1) by auto
  have w': "\<forall>tg. tg \<in> fst ` set m
            \<longrightarrow> lookup ?fs1 (joinpath sbd (Path (tg @ ''.html''))) \<noteq> Some Dir
            \<and> lookup ?fs1 (parent (joinpath sbd (Path (tg @ ''.html'')))) = Some Dir"
  proof (intro allI impI)
    fix tg assume tg: "tg \<in> fst ` set m"
    let ?q = "joinpath sbd (Path (tg @ ''.html''))"
    from tg have q: "lookup fs ?q \<noteq> Some Dir" "lookup fs (parent ?q) = Some Dir"
      using Cons.prems(2) by auto
    from q(1) have "parts ?q \<noteq> []" by (auto simp add: lookup_def)
    then have "lookup ?fs1 ?q \<noteq> Some Dir"
      using q(1) by (simp add: lookup_update)
    moreover have "parent ?q \<noteq> ?p" using q(2) wt(1) by auto
    then have "lookup ?fs1 (parent ?q) = Some Dir"
      using q(2) by (auto simp add: lookup_update)
    ultimately show "lookup ?fs1 ?q \<noteq> Some Dir \<and> lookup ?fs1 (parent ?q) = Some Dir"
      by blast
  qed
  from Cons.IH [OF a' w'] obtain fs' where
    "for_each
           (\<lambda>(tag, tag_posts).
              build_blog_page env tag_posts td sbd pbd (Path (tag @ ''.html''))
                (tag @ '' Blog Posts''))
           m ?fs1 = Inr fs'"
    by blast
  then show ?case using one x by simp
qed

text \<open>
  Claim C6. Provided the set of tags is iterated as a set is (each tag of some post, and
  nothing else), the dictionary of \<^verbatim>\<open>build_tags_pages\<close> has one key for every distinct
  tag, and the list below a tag holds exactly the posts that carry this tag: a post is in
  the lists of its own tags and in no other list. One page is built for every key, by
  \<^verbatim>\<open>build_blog_page\<close> with the file name \<^verbatim>\<open><tag>.html\<close> and the title
  \<^verbatim>\<open><tag> Blog Posts\<close>; when the build returns, the output directory has a file for
  every tag and nothing else has changed. The build does return when the five templates
  it loads are found and render, every post has an author, and the file of every tag can
  be written (its directory exists and no directory has its name).
\<close>

theorem tag_pages_partition_posts:
  assumes "set (iter_tag_set env (concat (map (\<lambda>post. PostData.tags (PostBuildData.data post)) posts)))
           = set (concat (map (\<lambda>post. PostData.tags (PostBuildData.data post)) posts))"
  shows "\<exists>tags_map.
           tags_map_of env posts = Inr tags_map
           \<and> distinct (map fst tags_map)
           \<and> set (map fst tags_map)
               = (\<Union>post\<in>set posts. set (PostData.tags (PostBuildData.data post)))
           \<and> (\<forall>tag tag_posts. (tag, tag_posts) \<in> set tags_map
                \<longrightarrow> set tag_posts
                    = {p \<in> set posts. tag \<in> set (PostData.tags (PostBuildData.data p))})
           \<and> build_tags_pages env posts td sbd pbd fs
               = for_each
                   (\<lambda>(tag, tag_posts).
                      build_blog_page env tag_posts td sbd pbd (Path (tag @ ''.html''))
                        (tag @ '' Blog Posts''))
                   tags_map fs
           \<and> (\<forall>fs'. build_tags_pages env posts td sbd pbd fs = Inr fs'
                \<longrightarrow> (\<forall>post tag. post \<in> set posts \<and> tag \<in> set (PostData.tags (PostBuildData.data post))
                       \<longrightarrow> (\<exists>page_text. lookup fs' (joinpath sbd (Path (tag @ ''.html'')))
                                          = Some (File page_text)))
                    \<and> (\<forall>q. (\<forall>post tag. post \<in> set posts
                                  \<and> tag \<in> set (PostData.tags (PostBuildData.data post))
                                  \<longrightarrow> q \<noteq> joinpath sbd (Path (tag @ ''.html'')))
                           \<longrightarrow> lookup fs' q = lookup fs q))
           \<and> (template_ok env td ''header.html.jinja'' \<and> template_ok env td ''navbar.html.jinja''
                \<and> template_ok env td ''post_block.html.jinja''
                \<and> template_ok env td ''blog.html.jinja'' \<and> template_ok env td ''tag.html.jinja''
                \<and> (\<forall>post. post \<in> set posts
                       \<longrightarrow> PostData.authors (PostBuildData.data post) \<noteq> [])
                \<and> (\<forall>post tag. post \<in> set posts
                         \<and> tag \<in> set (PostData.tags (PostBuildData.data post))
                       \<longrightarrow> lookup fs (joinpath sbd (Path (tag @ ''.html''))) \<noteq> Some Dir
                           \<and> lookup fs (parent (joinpath sbd (Path (tag @ ''.html'')))) = Some Dir)
              \<longrightarrow> (\<exists>fs'. build_tags_pages env posts td sbd pbd fs = Inr fs'))"
proof -
  from tags_map_of_Inr [OF assms] obtain m where
    run: "tags_map_of env posts = Inr m"
    and d: "distinct (map fst m)"
    and k: "set (map fst m) = (\<Union>post\<in>set posts. set (PostData.tags (PostBuildData.data post)))"
    and v: "\<forall>tag tag_posts. (tag, tag_posts) \<in> set m \<longrightarrow> tag_posts = posts_tagged tag posts"
    by blast
  have v': "\<forall>tag tag_posts. (tag, tag_posts) \<in> set m
              \<longrightarrow> set tag_posts = {p \<in> set posts. tag \<in> set (PostData.tags (PostBuildData.data p))}"
    using v set_posts_tagged by blast
  have b: "build_tags_pages env posts td sbd pbd fs
           = for_each
               (\<lambda>(tag, tag_posts).
                  build_blog_page env tag_posts td sbd pbd (Path (tag @ ''.html''))
                    (tag @ '' Blog Posts''))
               m fs"
    using run by (simp add: build_tags_pages_def)
  have k': "fst ` set m = (\<Union>post\<in>set posts. set (PostData.tags (PostBuildData.data post)))"
    using k by simp
  have w: "(\<forall>post tag. post \<in> set posts \<and> tag \<in> set (PostData.tags (PostBuildData.data post))
              \<longrightarrow> (\<exists>page_text. lookup fs' (joinpath sbd (Path (tag @ ''.html'')))
                                 = Some (File page_text)))
           \<and> (\<forall>q. (\<forall>post tag. post \<in> set posts
                         \<and> tag \<in> set (PostData.tags (PostBuildData.data post))
                         \<longrightarrow> q \<noteq> joinpath sbd (Path (tag @ ''.html'')))
                  \<longrightarrow> lookup fs' q = lookup fs q)"
    if h: "build_tags_pages env posts td sbd pbd fs = Inr fs'" for fs'
  proof -
    from h b have "for_each
               (\<lambda>(tag, tag_posts).
                  build_blog_page env tag_posts td sbd pbd (Path (tag @ ''.html''))
                    (tag @ '' Blog Posts''))
               m fs = Inr fs'" by simp
    from tag_pages_loop [OF this] have
      a1: "\<forall>tag \<in> fst ` set m.
          \<exists>page_text. lookup fs' (joinpath sbd (Path (tag @ ''.html''))) = Some (File page_text)"
      and a3: "\<forall>q. q \<notin> (\<lambda>tag. joinpath sbd (Path (tag @ ''.html''))) ` fst ` set m
              \<longrightarrow> lookup fs' q = lookup fs q"
      by blast+
    have "\<exists>page_text. lookup fs' (joinpath sbd (Path (tag @ ''.html''))) = Some (File page_text)"
      if "post \<in> set posts" "tag \<in> set (PostData.tags (PostBuildData.data post))" for post tag
    proof -
      from that have "tag \<in> fst ` set m" unfolding k' by blast
      with a1 show ?thesis by blast
    qed
    moreover have "lookup fs' q = lookup fs q"
      if "\<forall>post tag. post \<in> set posts \<and> tag \<in> set (PostData.tags (PostBuildData.data post))
                         \<longrightarrow> q \<noteq> joinpath sbd (Path (tag @ ''.html''))" for q
    proof -
      from that have "q \<notin> (\<lambda>tag. joinpath sbd (Path (tag @ ''.html''))) ` fst ` set m"
        unfolding k' by blast
      with a3 show ?thesis by blast
    qed
    ultimately show ?thesis by blast
  qed
  have tot: "\<exists>fs'. build_tags_pages env posts td sbd pbd fs = Inr fs'"
    if t: "template_ok env td ''header.html.jinja''" "template_ok env td ''navbar.html.jinja''"
      "template_ok env td ''post_block.html.jinja''" "template_ok env td ''blog.html.jinja''"
      "template_ok env td ''tag.html.jinja''"
      and au: "\<forall>post. post \<in> set posts
                 \<longrightarrow> PostData.authors (PostBuildData.data post) \<noteq> []"
      and wr: "\<forall>post tag. post \<in> set posts
                    \<and> tag \<in> set (PostData.tags (PostBuildData.data post))
                 \<longrightarrow> lookup fs (joinpath sbd (Path (tag @ ''.html''))) \<noteq> Some Dir
                     \<and> lookup fs (parent (joinpath sbd (Path (tag @ ''.html'')))) = Some Dir"
  proof -
    have a: "\<forall>tag ps post. (tag, ps) \<in> set m \<and> post \<in> set ps
               \<longrightarrow> PostData.authors (PostBuildData.data post) \<noteq> []"
      using v' au by blast
    have w: "\<forall>tag. tag \<in> fst ` set m
               \<longrightarrow> lookup fs (joinpath sbd (Path (tag @ ''.html''))) \<noteq> Some Dir
                   \<and> lookup fs (parent (joinpath sbd (Path (tag @ ''.html'')))) = Some Dir"
      unfolding k' using wr by blast
    from tag_pages_loop_total [OF t a w] show ?thesis unfolding b .
  qed
  from run d k v' b w tot show ?thesis by blast
qed

lemma demo_tags_map:
  "tags_map_of demo_env
        [demo_post ''one'' ''One'' 1 None [''rust'', ''webdev''], demo_post ''two'' ''Two'' 6 None [''rust'']]
   = Inr [(''webdev'', [demo_post ''one'' ''One'' 1 None [''rust'', ''webdev'']]),
          (''rust'', [demo_post ''one'' ''One'' 1 None [''rust'', ''webdev''],
                     demo_post ''two'' ''Two'' 6 None [''rust'']])]"
  by (simp add: tags_map_of_def demo_post_def dict_append_def)

lemma demo_tag_page_webdev:
  "build_blog_page demo_env [demo_post ''one'' ''One'' 1 None [''rust'', ''webdev'']]
     (PurePath [] [''templates'']) (PurePath [] [''site_out'']) (PurePath [] [''posts''])
     (Path ''webdev.html'') ''webdev Blog Posts'' demo_fs
   = Inr (demo_fs @ [(PurePath [] [''site_out'', ''webdev.html''],
                      File ''webdev Blog Posts|One|January 1, 2024'')])"
  by (simp add: build_blog_page_def build_post_blocks_def demo_templates_def sorted_py_def
        demo_post_def render_post_block_def render_authors_string_def render_tags_def
        echo_template_def show_tval_def render_date_string_def month_names_def str_nat_1
        str_nat_2024 opt_tval_def write_text_def joinpath_def Path_def lookup_def parent_def
        demo_fs_def)

lemma demo_tag_page_rust:
  "build_blog_page demo_env
     [demo_post ''one'' ''One'' 1 None [''rust'', ''webdev''], demo_post ''two'' ''Two'' 6 None [''rust'']]
     (PurePath [] [''templates'']) (PurePath [] [''site_out'']) (PurePath [] [''posts''])
     (Path ''rust.html'') ''rust Blog Posts''
     (demo_fs @ [(PurePath [] [''site_out'', ''webdev.html''],
                      File ''webdev Blog Posts|One|January 1, 2024'')])
   = Inr (demo_fs @ [(PurePath [] [''site_out'', ''webdev.html''],
                      File ''webdev Blog Posts|One|January 1, 2024''),
                     (PurePath [] [''site_out'', ''rust.html''],
                      File (''rust Blog Posts|Two|June 1, 2024'' @ [CHR 0x0A]
                            @ ''One|January 1, 2024''))])"
  by (simp add: build_blog_page_def build_post_blocks_def demo_templates_def sorted_py_def
        date_sort_def date_key_def
        demo_post_def render_post_block_def render_authors_string_def render_tags_def
        echo_template_def show_tval_def render_date_string_def month_names_def str_nat_1
        str_nat_2024 opt_tval_def write_text_def joinpath_def Path_def lookup_def parent_def
        demo_fs_def)

lemma demo_tags_pages:
  "build_tags_pages demo_env
     [demo_post ''one'' ''One'' 1 None [''rust'', ''webdev''], demo_post ''two'' ''Two'' 6 None [''rust'']]
     (PurePath [] [''templates'']) (PurePath [] [''site_out'']) (PurePath [] [''posts'']) demo_fs
   = Inr (demo_fs @ [(PurePath [] [''site_out'', ''webdev.html''],
                      File ''webdev Blog Posts|One|January 1, 2024''),
                     (PurePath [] [''site_out'', ''rust.html''],
                      File (''rust Blog Posts|Two|June 1, 2024'' @ [CHR 0x0A]
                            @ ''One|January 1, 2024''))])"
  by (simp add: build_tags_pages_def demo_tags_map demo_tag_page_webdev demo_tag_page_rust)


lemma demo_templates_ok:
  "template_ok demo_env td ''header.html.jinja''"
  "template_ok demo_env td ''navbar.html.jinja''"
  "template_ok demo_env td ''post_block.html.jinja''"
  "template_ok demo_env td ''blog.html.jinja''"
  "template_ok demo_env td ''tag.html.jinja''"
  by (simp_all add: template_ok_def demo_templates_def echo_template_def)

theorem tag_pages_partition_posts_witness:
  "set (iter_tag_set demo_env
          (concat (map (\<lambda>post. PostData.tags (PostBuildData.data post))
             [demo_post ''one'' ''One'' 1 None [''rust'', ''webdev''],
              demo_post ''two'' ''Two'' 6 None [''rust'']])))
     = set (concat (map (\<lambda>post. PostData.tags (PostBuildData.data post))
             [demo_post ''one'' ''One'' 1 None [''rust'', ''webdev''],
              demo_post ''two'' ''Two'' 6 None [''rust'']]))
   \<and> tags_map_of demo_env
        [demo_post ''one'' ''One'' 1 None [''rust'', ''webdev''], demo_post ''two'' ''Two'' 6 None [''rust'']]
     = Inr [(''webdev'', [demo_post ''one'' ''One'' 1 None [''rust'', ''webdev'']]),
            (''rust'', [demo_post ''one'' ''One'' 1 None [''rust'', ''webdev''],
                       demo_post ''two'' ''Two'' 6 None [''rust'']])]
   \<and> template_ok demo_env (PurePath [] [''templates'']) ''blog.html.jinja''
   \<and> template_ok demo_env (PurePath [] [''templates'']) ''post_block.html.jinja''
   \<and> (\<exists>fs'. build_tags_pages demo_env
        [demo_post ''one'' ''One'' 1 None [''rust'', ''webdev''], demo_post ''two'' ''Two'' 6 None [''rust'']]
        (PurePath [] [''templates'']) (PurePath [] [''site_out'']) (PurePath [] [''posts'']) demo_fs
        = Inr fs')
   \<and> build_tags_pages demo_env
        [demo_post ''one'' ''One'' 1 None [''rust'', ''webdev''], demo_post ''two'' ''Two'' 6 None [''rust'']]
        (PurePath [] [''templates'']) (PurePath [] [''site_out'']) (PurePath [] [''posts'']) demo_fs
     = Inr (demo_fs @ [(PurePath [] [''site_out'', ''webdev.html''],
                        File ''webdev Blog Posts|One|January 1, 2024''),
                       (PurePath [] [''site_out'', ''rust.html''],
                        File (''rust Blog Posts|Two|June 1, 2024'' @ [CHR 0x0A]
                              @ ''One|January 1, 2024''))])"
proof -
  let ?posts = "[demo_post ''one'' ''One'' 1 None [''rust'', ''webdev''],
                 demo_post ''two'' ''Two'' 6 None [''rust'']]"
  let ?td = "PurePath [] [''templates'']"
  let ?sbd = "PurePath [] [''site_out'']"
  have h: "set (iter_tag_set demo_env
                  (concat (map (\<lambda>post. PostData.tags (PostBuildData.data post)) ?posts)))
           = set (concat (map (\<lambda>post. PostData.tags (PostBuildData.data post)) ?posts))"
    by simp
  from tag_pages_partition_posts [OF h, where td = ?td and sbd = ?sbd
      and pbd = "PurePath [] [''posts'']" and fs = demo_fs]
  have total:
    "template_ok demo_env ?td ''header.html.jinja'' \<and> template_ok demo_env ?td ''navbar.html.jinja''
       \<and> template_ok demo_env ?td ''post_block.html.jinja''
       \<and> template_ok demo_env ?td ''blog.html.jinja'' \<and> template_ok demo_env ?td ''tag.html.jinja''
       \<and> (\<forall>post. post \<in> set ?posts \<longrightarrow> PostData.authors (PostBuildData.data post) \<noteq> [])
       \<and> (\<forall>post tag. post \<in> set ?posts \<and> tag \<in> set (PostData.tags (PostBuildData.data post))
              \<longrightarrow> lookup demo_fs (joinpath ?sbd (Path (tag @ ''.html''))) \<noteq> Some Dir
                  \<and> lookup demo_fs (parent (joinpath ?sbd (Path (tag @ ''.html'')))) = Some Dir)
     \<longrightarrow> (\<exists>fs'. build_tags_pages demo_env ?posts ?td ?sbd (PurePath [] [''posts'']) demo_fs
                = Inr fs')"
    by blast
  have authors: "\<forall>post. post \<in> set ?posts \<longrightarrow> PostData.authors (PostBuildData.data post) \<noteq> []"
    by (auto simp add: demo_post_def)
  have writable:
    "\<forall>post tag. post \<in> set ?posts \<and> tag \<in> set (PostData.tags (PostBuildData.data post))
       \<longrightarrow> lookup demo_fs (joinpath ?sbd (Path (tag @ ''.html''))) \<noteq> Some Dir
           \<and> lookup demo_fs (parent (joinpath ?sbd (Path (tag @ ''.html'')))) = Some Dir"
    by (auto simp add: demo_post_def joinpath_def Path_def parent_def lookup_def demo_fs_def)
  from total demo_templates_ok [of ?td] authors writable
  have "\<exists>fs'. build_tags_pages demo_env ?posts ?td ?sbd (PurePath [] [''posts'']) demo_fs = Inr fs'"
    by blast
  with h demo_tags_map demo_tags_pages demo_templates_ok [of ?td] show ?thesis
    by simp
qed

section \<open>Staging static files\<close>


lemma descend_eq [simp]: "descend p rel = descend p rel' \<longleftrightarrow> rel = rel'"
  by (simp add: descend_def)

lemma descend_nil [simp]: "descend p [] = p"
  by (cases p) (simp add: descend_def)

lemma parts_of_descend [simp]: "parts (descend p rel) = parts p @ rel"
  by (simp add: descend_def)

lemma descend_twice [simp]: "descend (descend p a) b = descend p (a @ b)"
  by (simp add: descend_def)



lemma descend_self [simp]: "descend p rel = p \<longleftrightarrow> rel = []"
  using descend_eq [of p rel "[]"] by (simp del: descend_eq)


















end
